theory Spec2Isabelle
  imports Complex_Main "HOL-Library.AList" "HOL-Library.Multiset"
begin

chapter \<open>A shallow embedding of the kalshi_arb trading core\<close>

text \<open>
  Python floats are modelled as real numbers, Python ints as \<open>int\<close>, strings as
  \<open>string\<close>, dictionaries as maps or (where the insertion order is observable) as
  association lists. Every exception the modelled code can raise is a value of
  \<open>py_error\<close>; wall-clock readings (\<open>datetime.now()\<close>) are explicit arguments.
\<close>

datatype py_error = ValueError | ValidationError | ZeroDivisionError

text \<open>Python's \<open>int(x)\<close> on a float truncates toward zero.\<close>

definition py_int :: "real \<Rightarrow> int" where
  "py_int x = (if 0 \<le> x then \<lfloor>x\<rfloor> else \<lceil>x\<rceil>)"

section \<open>Fee schedule: utils/fees.py\<close>

definition calculate_fee :: "real \<Rightarrow> int \<Rightarrow> real" where
  "calculate_fee price num_contracts =
     (if \<not> (0 < price \<and> price < 1) then 0
      else (let fee_per_contract = 0.07 * price * (1 - price);
                fee_cents = \<lceil>fee_per_contract * 100\<rceil>
            in (of_int fee_cents / 100) * of_int num_contracts))"

section \<open>Risk manager: risk/risk_manager.py\<close>

datatype DrawdownAction = NONE | WARNING | REDUCE | STOP

record RiskConfig =
  max_drawdown_warning :: real
  max_drawdown_reduce :: real
  max_drawdown_stop :: real
  max_cluster_exposure :: real
  max_single_position :: real
  min_days_to_expiration :: real
  correlation_spike_threshold :: real
  stress_correlation :: real

definition default_RiskConfig :: RiskConfig where
  "default_RiskConfig =
     \<lparr> max_drawdown_warning = 0.10, max_drawdown_reduce = 0.20, max_drawdown_stop = 0.30,
       max_cluster_exposure = 0.50, max_single_position = 0.10, min_days_to_expiration = 0.2,
       correlation_spike_threshold = 0.50, stress_correlation = 1.0 \<rparr>"

text \<open>
  The fields of \<open>RiskManager\<close> that \<open>update_account_value\<close> reads or writes. The
  value history keeps the values; the wall-clock stamp stored beside each is never read.
\<close>

record RiskManager =
  config :: RiskConfig
  peak_value :: real
  max_drawdown :: real
  value_history :: "real list"

record RiskMetrics =
  account_value :: real
  metrics_peak_value :: real
  current_drawdown :: real
  metrics_max_drawdown :: real
  drawdown_action :: DrawdownAction

definition RiskManager_init :: "RiskConfig \<Rightarrow> RiskManager" where
  "RiskManager_init cfg =
     \<lparr> config = cfg, peak_value = 0, max_drawdown = 0, value_history = [] \<rparr>"

definition determine_drawdown_action :: "RiskConfig \<Rightarrow> real \<Rightarrow> DrawdownAction" where
  "determine_drawdown_action cfg drawdown =
     (if drawdown \<ge> max_drawdown_stop cfg then STOP
      else if drawdown \<ge> max_drawdown_reduce cfg then REDUCE
      else if drawdown \<ge> max_drawdown_warning cfg then WARNING
      else NONE)"

definition update_account_value :: "RiskManager \<Rightarrow> real \<Rightarrow> RiskMetrics \<times> RiskManager" where
  "update_account_value m v =
     (let peak = (if v > peak_value m then v else peak_value m);
          dd = (if peak > 0 then (peak - v) / peak else 0);
          mdd = (if dd > max_drawdown m then dd else max_drawdown m);
          action = determine_drawdown_action (config m) dd
      in (\<lparr> account_value = v, metrics_peak_value = peak, current_drawdown = dd,
             metrics_max_drawdown = mdd, drawdown_action = action \<rparr>,
          m\<lparr> peak_value := peak, max_drawdown := mdd,
              value_history := value_history m @ [v] \<rparr>))"

text \<open>One session: the equity values are fed in order and each call's action is collected.\<close>

fun feed_values :: "RiskManager \<Rightarrow> real list \<Rightarrow> DrawdownAction list \<times> RiskManager" where
  "feed_values m [] = ([], m)"
| "feed_values m (v # vs) =
     (let (r, m') = update_account_value m v;
          (acts, m'') = feed_values m' vs
      in (drawdown_action r # acts, m''))"

section \<open>Constraints and probability bounds: models/constraint.py\<close>

datatype ConstraintType = SUBSET | PARTITION | TEMPORAL

record Constraint =
  id' :: string
  constraint_type :: ConstraintType
  lhs_tickers :: "string list"
  rhs_tickers :: "string list"
  description :: string

text \<open>\<open>list(set(lhs + rhs))\<close>: the distinct tickers, in an order the source leaves open.\<close>

definition all_tickers :: "Constraint \<Rightarrow> string list" where
  "all_tickers c = remdups (lhs_tickers c @ rhs_tickers c)"

record ProbabilityBound =
  ticker :: string
  lower :: real
  upper :: real
  source_constraint_id :: string
  confidence :: real

text \<open>
  The field constraints \<open>ge=0.0, le=1.0\<close> of the pydantic model: constructing a
  \<open>ProbabilityBound\<close> outside them raises.
\<close>

definition valid_ProbabilityBound :: "ProbabilityBound \<Rightarrow> bool" where
  "valid_ProbabilityBound b =
     (0 \<le> lower b \<and> lower b \<le> 1 \<and> 0 \<le> upper b \<and> upper b \<le> 1
      \<and> 0 \<le> confidence b \<and> confidence b \<le> 1)"

definition mk_ProbabilityBound ::
  "string \<Rightarrow> real \<Rightarrow> real \<Rightarrow> string \<Rightarrow> real \<Rightarrow> py_error + ProbabilityBound" where
  "mk_ProbabilityBound t lo up src conf =
     (let b = \<lparr> ticker = t, lower = lo, upper = up, source_constraint_id = src,
                 confidence = conf \<rparr>
      in if valid_ProbabilityBound b then Inr b else Inl ValidationError)"

definition merge :: "ProbabilityBound \<Rightarrow> ProbabilityBound \<Rightarrow> py_error + ProbabilityBound" where
  "merge self other =
     (if ticker self \<noteq> ticker other then Inl ValueError
      else mk_ProbabilityBound (ticker self)
             (max (lower self) (lower other))
             (min (upper self) (upper other))
             (source_constraint_id self @ ''+'' @ source_constraint_id other)
             (min (confidence self) (confidence other)))"

text \<open>
  The fold the engine runs over the bounds of one ticker
  (\<open>merged = all_bounds[0]; for bound in all_bounds[1:]: merged = merged.merge(bound)\<close>);
  an exception ends it.
\<close>

fun merge_all :: "ProbabilityBound \<Rightarrow> ProbabilityBound list \<Rightarrow> py_error + ProbabilityBound" where
  "merge_all merged [] = Inr merged"
| "merge_all merged (b # bs) =
     (case merge merged b of Inl e \<Rightarrow> Inl e | Inr m \<Rightarrow> merge_all m bs)"

section \<open>Directional signals: models/signal.py\<close>

datatype SignalDirection = BUY_YES | BUY_NO

datatype SignalType = REBALANCING | CONSTRAINT_VIOLATION | COMBINATORIAL

text \<open>
  The fields of \<open>DirectionalSignal\<close> apart from the two time stamps, which the sizer and
  the limit-price rule do not read.
\<close>

record DirectionalSignal =
  sig_ticker :: string
  direction :: SignalDirection
  signal_type :: SignalType
  current_price :: real
  bound_price :: real
  raw_edge :: real
  estimated_fee :: real
  estimated_spread :: real
  net_edge :: real
  sig_confidence :: real
  sig_source_constraint_id :: string

text \<open>The pydantic field constraints of \<open>DirectionalSignal\<close>.\<close>

definition valid_DirectionalSignal :: "DirectionalSignal \<Rightarrow> bool" where
  "valid_DirectionalSignal s =
     (0 \<le> current_price s \<and> current_price s \<le> 1
      \<and> 0 \<le> bound_price s \<and> bound_price s \<le> 1
      \<and> 0 \<le> estimated_fee s \<and> 0 \<le> estimated_spread s
      \<and> 0 \<le> sig_confidence s \<and> sig_confidence s \<le> 1)"

section \<open>Position sizer: risk/position_sizer.py\<close>

record SizingConfig =
  kelly_fraction :: real
  max_position_per_market :: real
  max_cluster_allocation :: real
  min_position_size :: real
  correlation_adjustment_per_position :: real

definition default_SizingConfig :: SizingConfig where
  "default_SizingConfig =
     \<lparr> kelly_fraction = 0.25, max_position_per_market = 0.05, max_cluster_allocation = 0.10,
       min_position_size = 10.0, correlation_adjustment_per_position = 0.20 \<rparr>"

text \<open>The pydantic field constraints of \<open>SizingConfig\<close>.\<close>

definition valid_SizingConfig :: "SizingConfig \<Rightarrow> bool" where
  "valid_SizingConfig cfg =
     (0 \<le> kelly_fraction cfg \<and> kelly_fraction cfg \<le> 1
      \<and> 0 \<le> max_position_per_market cfg \<and> max_position_per_market cfg \<le> 1
      \<and> 0 \<le> max_cluster_allocation cfg \<and> max_cluster_allocation cfg \<le> 1
      \<and> 0 \<le> min_position_size cfg
      \<and> 0 \<le> correlation_adjustment_per_position cfg
      \<and> correlation_adjustment_per_position cfg \<le> 1)"

definition calculate_kelly :: "real \<Rightarrow> real \<Rightarrow> real" where
  "calculate_kelly win_probability odds =
     (if win_probability \<le> 0 \<or> win_probability \<ge> 1 then 0
      else if odds \<le> 0 then 0
      else (let q = 1 - win_probability;
                kelly = (win_probability * odds - q) / odds
            in max 0 (min 1 kelly)))"

definition calculate_kelly_from_edge :: "real \<Rightarrow> real \<Rightarrow> real" where
  "calculate_kelly_from_edge edge price =
     (if edge \<le> 0 \<or> price \<le> 0 \<or> price \<ge> 1 then 0
      else (let win_prob = min 0.99 (price + edge);
                odds = (1 - price) / price
            in calculate_kelly win_prob odds))"

definition apply_fractional_kelly :: "SizingConfig \<Rightarrow> real \<Rightarrow> real" where
  "apply_fractional_kelly cfg kelly = kelly * kelly_fraction cfg"

definition adjust_for_correlation :: "SizingConfig \<Rightarrow> real \<Rightarrow> int \<Rightarrow> real" where
  "adjust_for_correlation cfg sz correlated_positions =
     (if correlated_positions \<le> 0 then sz
      else (let adjustment = 1 - correlation_adjustment_per_position cfg * of_int correlated_positions
            in sz * max 0.1 adjustment))"

definition adjust_for_costs :: "real \<Rightarrow> real \<Rightarrow> real \<Rightarrow> real" where
  "adjust_for_costs sz spread fee =
     (let cost_factor = 1 - 2 * spread - fee in sz * max 0.5 cost_factor)"

definition calculate_position_size :: "SizingConfig \<Rightarrow> DirectionalSignal \<Rightarrow> real \<Rightarrow> int \<Rightarrow> real" where
  "calculate_position_size cfg signal account_balance correlated_positions =
     (let kelly = calculate_kelly_from_edge (net_edge signal) (current_price signal);
          fractional = apply_fractional_kelly cfg kelly;
          adjusted = adjust_for_correlation cfg fractional correlated_positions;
          adjusted' = adjust_for_costs adjusted (estimated_spread signal) (estimated_fee signal);
          max_size = account_balance * max_position_per_market cfg;
          position_size = min (adjusted' * account_balance) max_size
      in if position_size < min_position_size cfg then 0 else position_size)"

section \<open>Positions: models/position.py\<close>

datatype OrderSide = YES | NO

text \<open>The fields of \<open>Position\<close> apart from its two time stamps.\<close>

record Position =
  pos_ticker :: string
  pos_side :: OrderSide
  pos_quantity :: int
  average_price :: real
  realized_pnl :: real
  unrealized_pnl :: real

section \<open>Profit taker: profit_taker.py\<close>

record ProfitTakerConfig =
  enabled :: bool
  take_profit_pct :: real
  stop_loss_pct :: real
  trailing_stop_pct :: real
  use_trailing_stop :: bool
  tiered_targets :: "(real \<times> real) list"
  min_hold_seconds :: int
  check_interval_seconds :: real

definition default_ProfitTakerConfig :: ProfitTakerConfig where
  "default_ProfitTakerConfig =
     \<lparr> enabled = True, take_profit_pct = 0.15, stop_loss_pct = 0.10, trailing_stop_pct = 0.05,
       use_trailing_stop = True,
       tiered_targets = [(0.10, 0.25), (0.20, 0.50), (0.30, 0.75)],
       min_hold_seconds = 60, check_interval_seconds = 5.0 \<rparr>"

text \<open>Times are seconds on the clock that \<open>datetime.now()\<close> reads.\<close>

record PositionTracker =
  trk_ticker :: string
  trk_side :: OrderSide
  entry_price :: real
  entry_time :: real
  trk_quantity :: int
  peak_price :: real
  peak_profit_pct :: real
  tiers_closed :: "nat list"
  trailing_stop_active :: bool
  trailing_stop_price :: real

text \<open>
  The \<open>reason\<close> of an action is a formatted string in the source; here it is the
  message kind with the numbers the string shows.
\<close>

datatype ProfitTakeReason =
    StopLossTriggeredAt real
  | TrailingStopFromPeak real
  | TakeProfitAt real
  | TierTargetHit nat real

record ProfitTakeAction =
  act_ticker :: string
  action :: string
  act_quantity :: int
  reason :: ProfitTakeReason
  current_profit_pct :: real
  target_price :: "real option"

text \<open>Float division by zero raises in Python.\<close>

definition calculate_profit_pct :: "PositionTracker \<Rightarrow> real \<Rightarrow> py_error + real" where
  "calculate_profit_pct tracker cp =
     (if entry_price tracker = 0 then Inl ZeroDivisionError
      else if trk_side tracker = YES then Inr ((cp - entry_price tracker) / entry_price tracker)
      else Inr ((entry_price tracker - cp) / entry_price tracker))"

definition update_peak :: "PositionTracker \<Rightarrow> real \<Rightarrow> py_error + PositionTracker" where
  "update_peak tracker cp =
     (case calculate_profit_pct tracker cp of
        Inl e \<Rightarrow> Inl e
      | Inr profit_pct \<Rightarrow>
          if profit_pct > peak_profit_pct tracker
          then Inr (tracker\<lparr> peak_profit_pct := profit_pct, peak_price := cp \<rparr>)
          else Inr tracker)"

text \<open>
  The loop over \<open>enumerate(self.config.tiered_targets)\<close>, from index \<open>i\<close> on; it
  returns the action, if any, and the tracker.
\<close>

fun tier_loop ::
  "Position \<Rightarrow> real \<Rightarrow> PositionTracker \<Rightarrow> nat \<Rightarrow> (real \<times> real) list
     \<Rightarrow> ProfitTakeAction option \<times> PositionTracker" where
  "tier_loop position profit_pct tracker i [] = (None, tracker)"
| "tier_loop position profit_pct tracker i ((target_pct, close_fraction) # rest) =
     (if i \<in> set (tiers_closed tracker) then tier_loop position profit_pct tracker (Suc i) rest
      else if profit_pct \<ge> target_pct then
        (let close_qty = py_int (of_int (pos_quantity position) * close_fraction)
         in if close_qty > 0 then
              (Some \<lparr> act_ticker = pos_ticker position, action = ''close_partial'',
                      act_quantity = close_qty, reason = TierTargetHit (i + 1) target_pct,
                      current_profit_pct = profit_pct, target_price = None \<rparr>,
               tracker\<lparr> tiers_closed := tiers_closed tracker @ [i] \<rparr>)
            else tier_loop position profit_pct tracker (Suc i) rest)
      else tier_loop position profit_pct tracker (Suc i) rest)"

text \<open>
  \<open>_evaluate_position\<close>: the state is the dictionary of tracked positions, \<open>now\<close> the
  clock reading; the result is the action, if any, and the dictionary after the call.
\<close>

definition evaluate_position ::
  "ProfitTakerConfig \<Rightarrow> (string \<rightharpoonup> PositionTracker) \<Rightarrow> real \<Rightarrow> Position \<Rightarrow> real
     \<Rightarrow> py_error + (ProfitTakeAction option \<times> (string \<rightharpoonup> PositionTracker))" where
  "evaluate_position cfg tracked now position cp =
     (case tracked (pos_ticker position) of
        None \<Rightarrow> Inr (None, tracked)
      | Some tracker \<Rightarrow>
          (let hold_time = now - entry_time tracker
           in if hold_time < of_int (min_hold_seconds cfg) then Inr (None, tracked)
              else
                (case update_peak tracker cp of
                   Inl e \<Rightarrow> Inl e
                 | Inr tracker1 \<Rightarrow>
                     (case calculate_profit_pct tracker1 cp of
                        Inl e \<Rightarrow> Inl e
                      | Inr profit_pct \<Rightarrow>
                          if profit_pct \<le> - stop_loss_pct cfg then
                            Inr (Some \<lparr> act_ticker = pos_ticker position, action = ''stop_loss'',
                                         act_quantity = pos_quantity position,
                                         reason = StopLossTriggeredAt profit_pct,
                                         current_profit_pct = profit_pct, target_price = None \<rparr>,
                                 tracked(pos_ticker position \<mapsto> tracker1))
                          else if trailing_stop_active tracker1
                                  \<and> peak_profit_pct tracker1 - profit_pct \<ge> trailing_stop_pct cfg then
                            Inr (Some \<lparr> act_ticker = pos_ticker position, action = ''close_full'',
                                         act_quantity = pos_quantity position,
                                         reason = TrailingStopFromPeak
                                                    (peak_profit_pct tracker1 - profit_pct),
                                         current_profit_pct = profit_pct, target_price = None \<rparr>,
                                 tracked(pos_ticker position \<mapsto> tracker1))
                          else if profit_pct \<ge> take_profit_pct cfg then
                            (if use_trailing_stop cfg \<and> \<not> trailing_stop_active tracker1 then
                               Inr (None,
                                    tracked(pos_ticker position \<mapsto>
                                              tracker1\<lparr> trailing_stop_active := True \<rparr>))
                             else
                               Inr (Some \<lparr> act_ticker = pos_ticker position,
                                            action = ''close_full'',
                                            act_quantity = pos_quantity position,
                                            reason = TakeProfitAt profit_pct,
                                            current_profit_pct = profit_pct,
                                            target_price = None \<rparr>,
                                    tracked(pos_ticker position \<mapsto> tracker1)))
                          else
                            (let (act, tracker2) =
                                   tier_loop position profit_pct tracker1 0 (tiered_targets cfg)
                             in Inr (act, tracked(pos_ticker position \<mapsto> tracker2)))))))"

section \<open>Constraint engine: engine/constraint_engine.py\<close>

text \<open>
  The registry is a dictionary from id to constraint (an association list in insertion
  order); the ticker index maps a ticker to a set of constraint ids, kept here as a
  duplicate-free list, the order of which stands for the iteration order of the Python
  set. Writing the registry to the optional storage file is not modelled.
\<close>

record ConstraintEngine =
  constraints :: "(string \<times> Constraint) list"
  ticker_index :: "string \<rightharpoonup> string list"

definition ConstraintEngine_init :: ConstraintEngine where
  "ConstraintEngine_init = \<lparr> constraints = [], ticker_index = Map.empty \<rparr>"

text \<open>\<open>self._ticker_index.get(ticker, set())\<close>\<close>

definition index_get :: "(string \<rightharpoonup> string list) \<Rightarrow> string \<Rightarrow> string list" where
  "index_get ix t = (case ix t of None \<Rightarrow> [] | Some s \<Rightarrow> s)"

text \<open>The body of the registration loop: create the ticker's set if absent, add the id.\<close>

definition index_add :: "string \<Rightarrow> string \<Rightarrow> (string \<rightharpoonup> string list) \<Rightarrow> (string \<rightharpoonup> string list)" where
  "index_add cid t ix = ix(t \<mapsto> List.insert cid (index_get ix t))"

text \<open>
  \<open>register_constraint\<close>; \<open>auto_id\<close> is the id the source derives from the constraint
  type and the clock when no \<open>constraint_id\<close> is given.
\<close>

definition register_constraint ::
  "ConstraintEngine \<Rightarrow> string \<Rightarrow> ConstraintType \<Rightarrow> string list \<Rightarrow> string list \<Rightarrow> string
     \<Rightarrow> string option \<Rightarrow> Constraint \<times> ConstraintEngine" where
  "register_constraint eng auto_id ctype lhs rhs desc constraint_id =
     (let cid = (case constraint_id of None \<Rightarrow> auto_id | Some c \<Rightarrow> c);
          constraint = \<lparr> id' = cid, constraint_type = ctype, lhs_tickers = lhs,
                          rhs_tickers = rhs, description = desc \<rparr>;
          cs = AList.update cid constraint (constraints eng);
          ix = fold (index_add cid) (all_tickers constraint) (ticker_index eng)
      in (constraint, eng\<lparr> constraints := cs, ticker_index := ix \<rparr>))"

definition get_constraints_for_ticker :: "ConstraintEngine \<Rightarrow> string \<Rightarrow> Constraint list" where
  "get_constraints_for_ticker eng t =
     List.map_filter (\<lambda>cid. map_of (constraints eng) cid) (index_get (ticker_index eng) t)"

section \<open>Float arithmetic\<close>

text \<open>
  Where the outcome of a comparison or of a truncation depends on rounding, the float
  operations of the source are rounded here as the interpreter rounds them: a float is a
  real number, and \<open>fl x\<close> is the double nearest to \<open>x\<close> (53 significant bits, ties to
  the even significand). So \<open>a + b\<close> on floats is \<open>fl (a + b)\<close>, and a decimal literal
  such as \<open>0.07\<close> is \<open>fl 0.07\<close>; integers of moderate size and their quotients by powers
  of two are written as they are. The exponent is unbounded: overflow, subnormal numbers,
  infinities and NaN are outside the model.
\<close>

definition round_half_even :: "real \<Rightarrow> int" where
  "round_half_even y =
     (let n = \<lfloor>y\<rfloor>; d = y - of_int n
      in if d < 1/2 then n else if d > 1/2 then n + 1 else if even n then n else n + 1)"

definition fl :: "real \<Rightarrow> real" where
  "fl x =
     (if x = 0 then 0
      else (let ulp = 2 powr (of_int \<lfloor>log 2 \<bar>x\<bar>\<rfloor> - 52)
            in of_int (round_half_even (x / ulp)) * ulp))"


section \<open>Execution engine: execution/execution_engine.py\<close>

text \<open>
  \<open>calculate_limit_price\<close>: the sum or difference of price and spread is a float
  operation, and so is the product with 100 that \<open>int\<close> truncates.
\<close>

definition calculate_limit_price :: "DirectionalSignal \<Rightarrow> bool \<Rightarrow> int" where
  "calculate_limit_price signal aggressive =
     (let price =
            (if direction signal = BUY_YES then
               (if aggressive then fl (current_price signal + estimated_spread signal)
                else current_price signal)
             else
               (if aggressive then fl (current_price signal - estimated_spread signal)
                else current_price signal));
          price_cents = py_int (fl (price * 100))
      in max 1 (min 99 price_cents))"

text \<open>
  The two lines of \<open>execute_signal\<close> that choose the limit price of the order:
  \<open>aggressive = signal.net_edge > 2 * signal.estimated_spread\<close>, then
  \<open>calculate_limit_price(signal, aggressive)\<close>.
\<close>

definition execute_signal_aggressive :: "DirectionalSignal \<Rightarrow> bool" where
  "execute_signal_aggressive signal = (net_edge signal > fl (2 * estimated_spread signal))"

definition execute_signal_price_cents :: "DirectionalSignal \<Rightarrow> int" where
  "execute_signal_price_cents signal =
     calculate_limit_price signal (execute_signal_aggressive signal)"

section \<open>Rebalancing detector: utils/fees.py, models/signal.py, signals/rebalancing_detector.py\<close>






section \<open>Bound calculator: engine/bound_calculator.py\<close>




chapter \<open>Properties\<close>

section \<open>Fees\<close>

lemma fee_cents_ge_1:
  assumes "0 < (p::real)" "p < 1"
  shows "1 \<le> \<lceil>0.07 * p * (1 - p) * 100\<rceil>"
proof -
  have "0 < p * (1 - p)" using assms by simp
  then have "0 < 0.07 * p * (1 - p) * 100" by simp
  then show ?thesis by linarith
qed

text \<open>
  C2. For every real price \<open>p\<close>, \<open>calculate_fee p 1\<close> is 0 outside the open interval
  (0,1), and inside it is \<open>max 0.01 (ceil (0.07 p (1 - p) 100) / 100)\<close>; the pinned values
  are fee(0) = fee(1) = 0, fee(0.50) = 0.02, fee(0.10) = 0.01 and fee(0.90) = 0.01.
\<close>

theorem calculate_fee_spec:
  "calculate_fee p 1 =
     (if 0 < p \<and> p < 1 then max 0.01 (of_int \<lceil>0.07 * p * (1 - p) * 100\<rceil> / 100) else 0)
   \<and> calculate_fee 0 1 = 0 \<and> calculate_fee 1 1 = 0
   \<and> calculate_fee 0.50 1 = 0.02 \<and> calculate_fee 0.10 1 = 0.01 \<and> calculate_fee 0.90 1 = 0.01"
proof -
  have gen: "calculate_fee p 1 =
     (if 0 < p \<and> p < 1 then max 0.01 (of_int \<lceil>0.07 * p * (1 - p) * 100\<rceil> / 100) else 0)"
  proof (cases "0 < p \<and> p < 1")
    case True
    then have "1 \<le> \<lceil>0.07 * p * (1 - p) * 100\<rceil>" using fee_cents_ge_1 by simp
    then have "(1::real) \<le> of_int \<lceil>0.07 * p * (1 - p) * 100\<rceil>" by linarith
    then have "(0.01::real) \<le> of_int \<lceil>0.07 * p * (1 - p) * 100\<rceil> / 100" by simp
    with True show ?thesis by (simp add: calculate_fee_def max_def)
  next
    case False
    then have z: "calculate_fee p 1 = 0" unfolding calculate_fee_def by simp
    show ?thesis by (subst if_not_P[OF False]) (rule z)
  qed
  have c50: "\<lceil>(0.07::real) * 0.50 * (1 - 0.50) * 100\<rceil> = 2" by simp
  have c10: "\<lceil>(0.07::real) * 0.10 * (1 - 0.10) * 100\<rceil> = 1" by simp
  have c90: "\<lceil>(0.07::real) * 0.90 * (1 - 0.90) * 100\<rceil> = 1" by simp
  have v50: "calculate_fee 0.50 1 = 0.02" using c50 by (simp add: calculate_fee_def)
  have v10: "calculate_fee 0.10 1 = 0.01" using c10 by (simp add: calculate_fee_def)
  have v90: "calculate_fee 0.90 1 = 0.01" using c90 by (simp add: calculate_fee_def)
  have v0: "calculate_fee 0 1 = 0" "calculate_fee 1 1 = 0" by (simp_all add: calculate_fee_def)
  from gen v0 v50 v10 v90 show ?thesis by blast
qed

section \<open>Risk manager: the drawdown action\<close>

lemma update_account_value_action:
  "drawdown_action (fst (update_account_value m v)) =
     determine_drawdown_action (config m)
       (if (if v > peak_value m then v else peak_value m) > 0
        then ((if v > peak_value m then v else peak_value m) - v)
               / (if v > peak_value m then v else peak_value m)
        else 0)"
  by (simp add: update_account_value_def Let_def)

lemma update_account_value_peak:
  "peak_value (snd (update_account_value m v)) = (if v > peak_value m then v else peak_value m)"
  by (simp add: update_account_value_def Let_def)

lemma update_account_value_config:
  "config (snd (update_account_value m v)) = config m"
  by (simp add: update_account_value_def Let_def)

lemma feed_values_Cons_actions:
  "fst (feed_values m (v # vs)) =
     drawdown_action (fst (update_account_value m v))
       # fst (feed_values (snd (update_account_value m v)) vs)"
  by (simp add: split_def Let_def)

lemma update_account_value_below_stop:
  assumes le: "x \<le> v" and vp: "v \<le> peak_value m"
    and stop: "determine_drawdown_action (config m)
                 (if peak_value m > 0 then (peak_value m - v) / peak_value m else 0) = STOP"
  shows "drawdown_action (fst (update_account_value m x)) = STOP"
    and "peak_value (snd (update_account_value m x)) = peak_value m"
proof -
  let ?P = "peak_value m"
  have nx: "\<not> x > ?P" using le vp by simp
  have dd: "(if ?P > 0 then (?P - v) / ?P else 0) \<le> (if ?P > 0 then (?P - x) / ?P else 0)"
    using le by (simp add: divide_right_mono)
  have s: "max_drawdown_stop (config m) \<le> (if ?P > 0 then (?P - v) / ?P else 0)"
    using stop by (simp add: determine_drawdown_action_def split: if_splits)
  have "max_drawdown_stop (config m) \<le> (if ?P > 0 then (?P - x) / ?P else 0)"
    using s dd by linarith
  then have d: "determine_drawdown_action (config m) (if ?P > 0 then (?P - x) / ?P else 0) = STOP"
    by (simp add: determine_drawdown_action_def)
  have e: "(if x > ?P then x else ?P) = ?P" using nx by simp
  show "drawdown_action (fst (update_account_value m x)) = STOP"
    unfolding update_account_value_action e by (rule d)
  show "peak_value (snd (update_account_value m x)) = ?P"
    unfolding update_account_value_peak by (rule e)
qed

lemma feed_values_below_stop:
  assumes "\<forall>x\<in>set vs. x \<le> v" and "v \<le> peak_value m"
    and "determine_drawdown_action (config m)
                 (if peak_value m > 0 then (peak_value m - v) / peak_value m else 0) = STOP"
  shows "\<forall>a\<in>set (fst (feed_values m vs)). a = STOP"
  using assms
proof (induction vs arbitrary: m)
  case Nil
  then show ?case by simp
next
  case (Cons x xs)
  let ?m' = "snd (update_account_value m x)"
  have xv: "x \<le> v" using Cons.prems(1) by simp
  note st = update_account_value_below_stop[OF xv Cons.prems(2) Cons.prems(3)]
  have ih: "\<forall>a\<in>set (fst (feed_values ?m' xs)). a = STOP"
  proof (rule Cons.IH)
    show "\<forall>x\<in>set xs. x \<le> v" using Cons.prems(1) by simp
    show "v \<le> peak_value ?m'" using Cons.prems(2) st(2) by simp
    show "determine_drawdown_action (config ?m')
            (if peak_value ?m' > 0 then (peak_value ?m' - v) / peak_value ?m' else 0) = STOP"
      using Cons.prems(3) unfolding st(2) update_account_value_config .
  qed
  show ?case unfolding feed_values_Cons_actions using st(1) ih by simp
qed

text \<open>
  C1 (as amended). The action of each call is decided by the current drawdown from the
  running peak alone; no state remembers an earlier STOP. What does hold: once a call
  at equity \<open>v\<close> has returned STOP, every later call of the session returns STOP as long
  as no equity fed in the meantime or now exceeds \<open>v\<close>.
\<close>

theorem stop_persists_while_equity_not_above_stop_level:
  assumes "drawdown_action (fst (update_account_value m v)) = STOP"
    and "\<forall>x\<in>set vs. x \<le> v"
  shows "\<forall>a\<in>set (fst (feed_values (snd (update_account_value m v)) vs)). a = STOP"
proof -
  let ?m = "snd (update_account_value m v)"
  let ?P = "peak_value ?m"
  have P: "?P = (if v > peak_value m then v else peak_value m)"
    by (rule update_account_value_peak)
  have vp: "v \<le> ?P" unfolding P by simp
  have c: "config ?m = config m" by (rule update_account_value_config)
  have "determine_drawdown_action (config ?m) (if ?P > 0 then (?P - v) / ?P else 0) = STOP"
    using assms(1) unfolding c P update_account_value_action .
  from feed_values_below_stop[OF assms(2) vp this] show ?thesis .
qed

lemma dda_default:
  "determine_drawdown_action default_RiskConfig d =
     (if d \<ge> 0.30 then STOP else if d \<ge> 0.20 then REDUCE else if d \<ge> 0.10 then WARNING else NONE)"
  by (simp add: determine_drawdown_action_def default_RiskConfig_def)

lemma init_fields:
  "config (RiskManager_init c) = c" "peak_value (RiskManager_init c) = 0"
  by (simp_all add: RiskManager_init_def)

text \<open>
  The scenario of the claim: after 10000, 9500, 8000, 6500 the action is STOP, and the
  further update to 9000 (a drawdown of exactly 10 percent from the peak) returns WARNING.
\<close>

theorem drawdown_scenario_recovers_from_stop:
  "fst (feed_values (RiskManager_init default_RiskConfig) [10000, 9500, 8000, 6500, 9000])
     = [NONE, NONE, REDUCE, STOP, WARNING]"
  by (simp add: feed_values_Cons_actions update_account_value_action update_account_value_peak
       update_account_value_config init_fields dda_default del: feed_values.simps(2))

theorem stop_persists_witness:
  "drawdown_action (fst (update_account_value
       (snd (feed_values (RiskManager_init default_RiskConfig) [10000, 9500, 8000])) 6500)) = STOP
   \<and> fst (feed_values (snd (update_account_value
       (snd (feed_values (RiskManager_init default_RiskConfig) [10000, 9500, 8000])) 6500)) [6000, 6500])
      = [STOP, STOP]"
proof -
  let ?m = "snd (feed_values (RiskManager_init default_RiskConfig) [10000, 9500, 8000])"
  have h1: "drawdown_action (fst (update_account_value ?m 6500)) = STOP"
    by (simp add: feed_values_Cons_actions update_account_value_action update_account_value_peak
       update_account_value_config init_fields dda_default split_def Let_def)
  have h2: "\<forall>x\<in>set [6000, 6500::real]. x \<le> 6500" by simp
  have a: "\<forall>a\<in>set (fst (feed_values (snd (update_account_value ?m 6500)) [6000, 6500])). a = STOP"
    using stop_persists_while_equity_not_above_stop_level[OF h1 h2] .
  have "fst (feed_values (snd (update_account_value ?m 6500)) [6000, 6500]) = [STOP, STOP]"
    using a unfolding feed_values_Cons_actions by simp
  with h1 show ?thesis by blast
qed

section \<open>Merging probability bounds\<close>

lemma merge_same_ticker:
  assumes "valid_ProbabilityBound a" "valid_ProbabilityBound b" "ticker a = ticker b"
  shows "merge a b = Inr \<lparr> ticker = ticker a,
                            lower = max (lower a) (lower b),
                            upper = min (upper a) (upper b),
                            source_constraint_id = source_constraint_id a @ ''+'' @ source_constraint_id b,
                            confidence = min (confidence a) (confidence b) \<rparr>"
  using assms
  by (simp add: merge_def mk_ProbabilityBound_def valid_ProbabilityBound_def Let_def
        max_def min_def)

lemma merge_valid:
  assumes "valid_ProbabilityBound a" "valid_ProbabilityBound b" "ticker a = ticker b"
    and "merge a b = Inr m"
  shows "valid_ProbabilityBound m"
  using assms
  by (auto simp: merge_def mk_ProbabilityBound_def Let_def split: if_splits)

lemma merge_all_result:
  assumes "valid_ProbabilityBound b0"
    and "\<forall>b\<in>set bs. valid_ProbabilityBound b \<and> ticker b = ticker b0"
  shows "merge_all b0 bs =
           Inr \<lparr> ticker = ticker b0,
                 lower = fold max (map lower bs) (lower b0),
                 upper = fold min (map upper bs) (upper b0),
                 source_constraint_id =
                   fold (\<lambda>b s. s @ ''+'' @ source_constraint_id b) bs (source_constraint_id b0),
                 confidence = fold min (map confidence bs) (confidence b0) \<rparr>"
  using assms
proof (induction bs arbitrary: b0)
  case Nil
  then show ?case by simp
next
  case (Cons b bs)
  let ?m = "\<lparr> ticker = ticker b0,
               lower = max (lower b0) (lower b),
               upper = min (upper b0) (upper b),
               source_constraint_id = source_constraint_id b0 @ ''+'' @ source_constraint_id b,
               confidence = min (confidence b0) (confidence b) \<rparr>"
  have vb: "valid_ProbabilityBound b" and tb: "ticker b0 = ticker b" using Cons.prems(2) by simp_all
  have m: "merge b0 b = Inr ?m" using Cons.prems(1) vb tb by (rule merge_same_ticker)
  have vm: "valid_ProbabilityBound ?m" using Cons.prems(1) vb tb m by (rule merge_valid)
  have rest: "\<forall>c\<in>set bs. valid_ProbabilityBound c \<and> ticker c = ticker ?m"
    using Cons.prems(2) by simp
  have "merge_all ?m bs =
           Inr \<lparr> ticker = ticker ?m,
                 lower = fold max (map lower bs) (lower ?m),
                 upper = fold min (map upper bs) (upper ?m),
                 source_constraint_id =
                   fold (\<lambda>b s. s @ ''+'' @ source_constraint_id b) bs (source_constraint_id ?m),
                 confidence = fold min (map confidence bs) (confidence ?m) \<rparr>"
    using vm rest by (rule Cons.IH)
  then show ?case unfolding merge_all.simps m by (simp add: max.commute min.commute)
qed

lemma fold_max_Max: "fold max (map f bs) (f b0) = Max (f ` set (b0 # bs))"
proof -
  have "Max (set (f b0 # map f bs)) = fold max (map f bs) (f b0)" by (rule Max.set_eq_fold)
  then show ?thesis by simp
qed

lemma fold_min_Min: "fold min (map f bs) (f b0) = Min (f ` set (b0 # bs))"
proof -
  have "Min (set (f b0 # map f bs)) = fold min (map f bs) (f b0)" by (rule Min.set_eq_fold)
  then show ?thesis by simp
qed

lemma merge_all_fields:
  assumes "\<forall>b\<in>set (b0 # bs). valid_ProbabilityBound b \<and> ticker b = t"
  shows "\<exists>m. merge_all b0 bs = Inr m
           \<and> ticker m = t
           \<and> lower m = Max (lower ` set (b0 # bs))
           \<and> upper m = Min (upper ` set (b0 # bs))
           \<and> confidence m = Min (confidence ` set (b0 # bs))
           \<and> source_constraint_id m =
               fold (\<lambda>b s. s @ ''+'' @ source_constraint_id b) bs (source_constraint_id b0)"
proof -
  have v: "valid_ProbabilityBound b0" and t: "ticker b0 = t" using assms by simp_all
  have r: "\<forall>b\<in>set bs. valid_ProbabilityBound b \<and> ticker b = ticker b0" using assms by simp
  show ?thesis
    unfolding merge_all_result[OF v r] fold_max_Max fold_min_Min using t by simp
qed

lemma merge_assoc:
  assumes "valid_ProbabilityBound x" "valid_ProbabilityBound y" "valid_ProbabilityBound z"
    and "ticker x = ticker y" "ticker y = ticker z"
  shows "\<exists>xy yz. merge x y = Inr xy \<and> merge y z = Inr yz \<and> merge xy z = merge x yz"
proof -
  let ?xy = "\<lparr> ticker = ticker x, lower = max (lower x) (lower y),
                upper = min (upper x) (upper y),
                source_constraint_id = source_constraint_id x @ ''+'' @ source_constraint_id y,
                confidence = min (confidence x) (confidence y) \<rparr>"
  let ?yz = "\<lparr> ticker = ticker y, lower = max (lower y) (lower z),
                upper = min (upper y) (upper z),
                source_constraint_id = source_constraint_id y @ ''+'' @ source_constraint_id z,
                confidence = min (confidence y) (confidence z) \<rparr>"
  have xy: "merge x y = Inr ?xy" using assms(1,2,4) by (rule merge_same_ticker)
  have yz: "merge y z = Inr ?yz" using assms(2,3,5) by (rule merge_same_ticker)
  have vxy: "valid_ProbabilityBound ?xy" using assms(1,2,4) xy by (rule merge_valid)
  have vyz: "valid_ProbabilityBound ?yz" using assms(2,3,5) yz by (rule merge_valid)
  have l: "merge ?xy z = Inr \<lparr> ticker = ticker ?xy, lower = max (lower ?xy) (lower z),
                upper = min (upper ?xy) (upper z),
                source_constraint_id = source_constraint_id ?xy @ ''+'' @ source_constraint_id z,
                confidence = min (confidence ?xy) (confidence z) \<rparr>"
    by (rule merge_same_ticker[OF vxy assms(3)]) (use assms(4,5) in simp)
  have r: "merge x ?yz = Inr \<lparr> ticker = ticker x, lower = max (lower x) (lower ?yz),
                upper = min (upper x) (upper ?yz),
                source_constraint_id = source_constraint_id x @ ''+'' @ source_constraint_id ?yz,
                confidence = min (confidence x) (confidence ?yz) \<rparr>"
    by (rule merge_same_ticker[OF assms(1) vyz]) (use assms(4) in simp)
  have "merge ?xy z = merge x ?yz" unfolding l r by (simp add: max.assoc min.assoc)
  with xy yz show ?thesis by (intro exI[of _ ?xy] exI[of _ ?yz] conjI)
qed

lemma merge_commute_fields:
  assumes "valid_ProbabilityBound x" "valid_ProbabilityBound y" "ticker x = ticker y"
  shows "\<exists>xy yx. merge x y = Inr xy \<and> merge y x = Inr yx
           \<and> ticker yx = ticker xy \<and> lower yx = lower xy \<and> upper yx = upper xy
           \<and> confidence yx = confidence xy"
proof -
  have a: "merge x y = Inr \<lparr> ticker = ticker x, lower = max (lower x) (lower y),
                upper = min (upper x) (upper y),
                source_constraint_id = source_constraint_id x @ ''+'' @ source_constraint_id y,
                confidence = min (confidence x) (confidence y) \<rparr>"
    using assms by (rule merge_same_ticker)
  have b: "merge y x = Inr \<lparr> ticker = ticker y, lower = max (lower y) (lower x),
                upper = min (upper y) (upper x),
                source_constraint_id = source_constraint_id y @ ''+'' @ source_constraint_id x,
                confidence = min (confidence y) (confidence x) \<rparr>"
    using assms(2,1) assms(3)[symmetric] by (rule merge_same_ticker)
  show ?thesis unfolding a b using assms(3) by (simp add: max.commute min.commute)
qed

text \<open>
  C6 (as amended). For valid bounds of one ticker \<open>t\<close>: the fold of \<open>merge\<close> over a
  non-empty list succeeds, its lower is the maximum of the lowers, its upper the minimum
  of the uppers, its confidence the minimum of the confidences, and these fields and the
  ticker are the same for every reordering of the list; \<open>merge\<close> is associative on the
  whole bound and commutative on ticker, lower, upper and confidence. The merged
  \<open>source_constraint_id\<close> is the inputs' ids joined by "+" in fold order.
\<close>

theorem merge_fold_fields_order_independent:
  assumes "\<forall>b\<in>set (b0 # bs). valid_ProbabilityBound b \<and> ticker b = t"
    and "mset (c0 # cs) = mset (b0 # bs)"
    and "valid_ProbabilityBound x \<and> ticker x = t"
    and "valid_ProbabilityBound y \<and> ticker y = t"
    and "valid_ProbabilityBound z \<and> ticker z = t"
  shows "(\<exists>m m'. merge_all b0 bs = Inr m \<and> merge_all c0 cs = Inr m'
            \<and> ticker m = t
            \<and> lower m = Max (lower ` set (b0 # bs))
            \<and> upper m = Min (upper ` set (b0 # bs))
            \<and> confidence m = Min (confidence ` set (b0 # bs))
            \<and> source_constraint_id m =
                fold (\<lambda>b s. s @ ''+'' @ source_constraint_id b) bs (source_constraint_id b0)
            \<and> ticker m' = ticker m \<and> lower m' = lower m \<and> upper m' = upper m
            \<and> confidence m' = confidence m)
       \<and> (\<exists>xy yz. merge x y = Inr xy \<and> merge y z = Inr yz \<and> merge xy z = merge x yz)
       \<and> (\<exists>xy yx. merge x y = Inr xy \<and> merge y x = Inr yx
            \<and> ticker yx = ticker xy \<and> lower yx = lower xy \<and> upper yx = upper xy
            \<and> confidence yx = confidence xy)"
proof -
  have s: "set (c0 # cs) = set (b0 # bs)" using assms(2) by (rule mset_eq_setD)
  have c: "\<forall>b\<in>set (c0 # cs). valid_ProbabilityBound b \<and> ticker b = t"
    unfolding s by (rule assms(1))
  from merge_all_fields[OF assms(1)] obtain m where
    m: "merge_all b0 bs = Inr m" "ticker m = t"
       "lower m = Max (lower ` set (b0 # bs))" "upper m = Min (upper ` set (b0 # bs))"
       "confidence m = Min (confidence ` set (b0 # bs))"
       "source_constraint_id m =
          fold (\<lambda>b s. s @ ''+'' @ source_constraint_id b) bs (source_constraint_id b0)"
    by blast
  from merge_all_fields[OF c] obtain m' where
    m': "merge_all c0 cs = Inr m'" "ticker m' = t"
       "lower m' = Max (lower ` set (c0 # cs))" "upper m' = Min (upper ` set (c0 # cs))"
       "confidence m' = Min (confidence ` set (c0 # cs))"
    by blast
  have e: "ticker m' = ticker m" "lower m' = lower m" "upper m' = upper m"
          "confidence m' = confidence m"
    using m m' unfolding s by simp_all
  have first: "\<exists>m m'. merge_all b0 bs = Inr m \<and> merge_all c0 cs = Inr m'
            \<and> ticker m = t
            \<and> lower m = Max (lower ` set (b0 # bs))
            \<and> upper m = Min (upper ` set (b0 # bs))
            \<and> confidence m = Min (confidence ` set (b0 # bs))
            \<and> source_constraint_id m =
                fold (\<lambda>b s. s @ ''+'' @ source_constraint_id b) bs (source_constraint_id b0)
            \<and> ticker m' = ticker m \<and> lower m' = lower m \<and> upper m' = upper m
            \<and> confidence m' = confidence m"
    by (intro exI[of _ m] exI[of _ m'] conjI m m'(1) e)
  have second: "\<exists>xy yz. merge x y = Inr xy \<and> merge y z = Inr yz \<and> merge xy z = merge x yz"
    by (rule merge_assoc) (use assms(3,4,5) in simp_all)
  have third: "\<exists>xy yx. merge x y = Inr xy \<and> merge y x = Inr yx
            \<and> ticker yx = ticker xy \<and> lower yx = lower xy \<and> upper yx = upper xy
            \<and> confidence yx = confidence xy"
    by (rule merge_commute_fields) (use assms(3,4) in simp_all)
  show ?thesis by (rule conjI[OF first conjI[OF second third]])
qed

text \<open>
  Two bounds of ticker T, [0.2, 0.8] from c1 and [0.3, 0.9] from c2 with confidence 0.5:
  merged in either order the interval is [0.3, 0.8] and the confidence 0.5.
\<close>

theorem merge_fold_fields_witness:
  "valid_ProbabilityBound \<lparr> ticker = ''T'', lower = 0.2, upper = 0.8,
                             source_constraint_id = ''c1'', confidence = 1 \<rparr>
   \<and> valid_ProbabilityBound \<lparr> ticker = ''T'', lower = 0.3, upper = 0.9,
                             source_constraint_id = ''c2'', confidence = 0.5 \<rparr>
   \<and> (\<exists>m m'. merge_all \<lparr> ticker = ''T'', lower = 0.2, upper = 0.8,
                           source_constraint_id = ''c1'', confidence = 1 \<rparr>
                        [\<lparr> ticker = ''T'', lower = 0.3, upper = 0.9,
                            source_constraint_id = ''c2'', confidence = 0.5 \<rparr>] = Inr m
          \<and> merge_all \<lparr> ticker = ''T'', lower = 0.3, upper = 0.9,
                            source_constraint_id = ''c2'', confidence = 0.5 \<rparr>
                        [\<lparr> ticker = ''T'', lower = 0.2, upper = 0.8,
                           source_constraint_id = ''c1'', confidence = 1 \<rparr>] = Inr m'
          \<and> lower m = 0.3 \<and> upper m = 0.8 \<and> confidence m = 0.5
          \<and> lower m' = 0.3 \<and> upper m' = 0.8 \<and> confidence m' = 0.5)"
proof -
  let ?B1 = "\<lparr> ticker = ''T'', lower = 0.2, upper = 0.8,
                source_constraint_id = ''c1'', confidence = 1 \<rparr>"
  let ?B2 = "\<lparr> ticker = ''T'', lower = 0.3, upper = 0.9,
                source_constraint_id = ''c2'', confidence = 0.5 \<rparr>"
  have v1: "valid_ProbabilityBound ?B1" by (simp add: valid_ProbabilityBound_def)
  have v2: "valid_ProbabilityBound ?B2" by (simp add: valid_ProbabilityBound_def)
  have h1: "\<forall>b\<in>set (?B1 # [?B2]). valid_ProbabilityBound b \<and> ticker b = ''T''"
    using v1 v2 by simp
  have h2: "mset (?B2 # [?B1]) = mset (?B1 # [?B2])" by simp
  have h3: "valid_ProbabilityBound ?B1 \<and> ticker ?B1 = ''T''" using v1 by simp
  have h4: "valid_ProbabilityBound ?B2 \<and> ticker ?B2 = ''T''" using v2 by simp
  from merge_fold_fields_order_independent[OF h1 h2 h3 h4 h3]
  obtain m m' where
    m: "merge_all ?B1 [?B2] = Inr m" "merge_all ?B2 [?B1] = Inr m'"
       "lower m = Max (lower ` set (?B1 # [?B2]))"
       "upper m = Min (upper ` set (?B1 # [?B2]))"
       "confidence m = Min (confidence ` set (?B1 # [?B2]))"
       "lower m' = lower m" "upper m' = upper m" "confidence m' = confidence m"
    by blast
  have l: "lower m = 0.3" and u: "upper m = 0.8" and c: "confidence m = 0.5"
    using m(3,4,5) by simp_all
  have l': "lower m' = 0.3" and u': "upper m' = 0.8" and c': "confidence m' = 0.5"
    using m(6,7,8) l u c by simp_all
  have ex: "\<exists>m m'. merge_all ?B1 [?B2] = Inr m \<and> merge_all ?B2 [?B1] = Inr m'
          \<and> lower m = 0.3 \<and> upper m = 0.8 \<and> confidence m = 0.5
          \<and> lower m' = 0.3 \<and> upper m' = 0.8 \<and> confidence m' = 0.5"
    by (intro exI[of _ m] exI[of _ m'] conjI m(1,2) l u c l' u' c')
  show ?thesis by (rule conjI[OF v1 conjI[OF v2 ex]])
qed

text \<open>
  The same two bounds merged in the two orders differ in \<open>source_constraint_id\<close>
  ("c1+c2" against "c2+c1"), so the merged bound as a whole depends on the order.
\<close>

theorem merge_order_counterexample:
  "merge_all \<lparr> ticker = ''T'', lower = 0.2, upper = 0.8,
               source_constraint_id = ''c1'', confidence = 1 \<rparr>
             [\<lparr> ticker = ''T'', lower = 0.3, upper = 0.9,
                 source_constraint_id = ''c2'', confidence = 0.5 \<rparr>]
     = Inr \<lparr> ticker = ''T'', lower = 0.3, upper = 0.8,
               source_constraint_id = ''c1+c2'', confidence = 0.5 \<rparr>
   \<and> merge_all \<lparr> ticker = ''T'', lower = 0.3, upper = 0.9,
                 source_constraint_id = ''c2'', confidence = 0.5 \<rparr>
               [\<lparr> ticker = ''T'', lower = 0.2, upper = 0.8,
                   source_constraint_id = ''c1'', confidence = 1 \<rparr>]
     = Inr \<lparr> ticker = ''T'', lower = 0.3, upper = 0.8,
               source_constraint_id = ''c2+c1'', confidence = 0.5 \<rparr>
   \<and> merge_all \<lparr> ticker = ''T'', lower = 0.2, upper = 0.8,
               source_constraint_id = ''c1'', confidence = 1 \<rparr>
             [\<lparr> ticker = ''T'', lower = 0.3, upper = 0.9,
                 source_constraint_id = ''c2'', confidence = 0.5 \<rparr>]
     \<noteq> merge_all \<lparr> ticker = ''T'', lower = 0.3, upper = 0.9,
                 source_constraint_id = ''c2'', confidence = 0.5 \<rparr>
               [\<lparr> ticker = ''T'', lower = 0.2, upper = 0.8,
                   source_constraint_id = ''c1'', confidence = 1 \<rparr>]"
  by (simp add: merge_def mk_ProbabilityBound_def valid_ProbabilityBound_def Let_def)

section \<open>Position sizer: monotonicity\<close>

lemma calculate_kelly_nonneg: "0 \<le> calculate_kelly wp odds"
  by (simp add: calculate_kelly_def Let_def)

lemma calculate_kelly_mono:
  assumes "0 < w1" "w1 \<le> w2" "w2 < 1" "0 < odds"
  shows "calculate_kelly w1 odds \<le> calculate_kelly w2 odds"
proof -
  have "w1 * odds \<le> w2 * odds" using assms(2,4) by (simp add: mult_right_mono)
  then have "w1 * odds - (1 - w1) \<le> w2 * odds - (1 - w2)"
    using assms(2) by linarith
  then have "(w1 * odds - (1 - w1)) / odds \<le> (w2 * odds - (1 - w2)) / odds"
    using assms(4) by (simp add: divide_right_mono)
  then have "max 0 (min 1 ((w1 * odds - (1 - w1)) / odds))
               \<le> max 0 (min 1 ((w2 * odds - (1 - w2)) / odds))"
    by (simp add: max_def min_def)
  moreover have "\<not> (w1 \<le> 0 \<or> w1 \<ge> 1)" "\<not> (w2 \<le> 0 \<or> w2 \<ge> 1)" "\<not> odds \<le> 0"
    using assms by simp_all
  ultimately show ?thesis by (simp add: calculate_kelly_def Let_def)
qed

lemma calculate_kelly_from_edge_nonneg: "0 \<le> calculate_kelly_from_edge e p"
  by (simp add: calculate_kelly_from_edge_def Let_def calculate_kelly_nonneg)

lemma calculate_kelly_from_edge_mono:
  assumes "e1 \<le> e2"
  shows "calculate_kelly_from_edge e1 p \<le> calculate_kelly_from_edge e2 p"
proof (cases "e1 \<le> 0 \<or> p \<le> 0 \<or> p \<ge> 1")
  case True
  then have "calculate_kelly_from_edge e1 p = 0" by (simp add: calculate_kelly_from_edge_def)
  then show ?thesis using calculate_kelly_from_edge_nonneg[of e2 p] by simp
next
  case False
  then have e1: "0 < e1" and p: "0 < p" "p < 1" by simp_all
  have e2: "0 < e2" using e1 assms by simp
  have odds: "0 < (1 - p) / p" using p by simp
  have w1: "0 < min 0.99 (p + e1)" using e1 p by simp
  have w2: "min 0.99 (p + e2) < 1" by simp
  have w12: "min 0.99 (p + e1) \<le> min 0.99 (p + e2)"
    using assms by (intro min.mono) simp_all
  have k: "calculate_kelly (min 0.99 (p + e1)) ((1 - p) / p)
             \<le> calculate_kelly (min 0.99 (p + e2)) ((1 - p) / p)"
    using w1 w12 w2 odds by (rule calculate_kelly_mono)
  have a: "calculate_kelly_from_edge e1 p = calculate_kelly (min 0.99 (p + e1)) ((1 - p) / p)"
    using e1 p by (simp add: calculate_kelly_from_edge_def Let_def)
  have b: "calculate_kelly_from_edge e2 p = calculate_kelly (min 0.99 (p + e2)) ((1 - p) / p)"
    using e2 p by (simp add: calculate_kelly_from_edge_def Let_def)
  show ?thesis unfolding a b by (rule k)
qed

lemma adjust_for_correlation_nonneg:
  "0 \<le> sz \<Longrightarrow> 0 \<le> adjust_for_correlation cfg sz k"
  by (simp add: adjust_for_correlation_def Let_def)

lemma adjust_for_correlation_mono_size:
  "s1 \<le> s2 \<Longrightarrow> adjust_for_correlation cfg s1 k \<le> adjust_for_correlation cfg s2 k"
  by (simp add: adjust_for_correlation_def Let_def mult_right_mono)

lemma adjust_for_correlation_antimono:
  assumes "0 \<le> correlation_adjustment_per_position cfg" "0 \<le> sz" "k1 \<le> k2"
  shows "adjust_for_correlation cfg sz k2 \<le> adjust_for_correlation cfg sz k1"
proof -
  let ?a = "correlation_adjustment_per_position cfg"
  consider "k2 \<le> 0" | "k1 \<le> 0" "0 < k2" | "0 < k1" using assms(3) by linarith
  then show ?thesis
  proof cases
    case 1
    then show ?thesis using assms(3) by (simp add: adjust_for_correlation_def)
  next
    case 2
    have "0 \<le> ?a * of_int k2" using assms(1) 2(2) by simp
    then have "max 0.1 (1 - ?a * of_int k2) \<le> 1" by simp
    then have "sz * max 0.1 (1 - ?a * of_int k2) \<le> sz * 1"
      using assms(2) by (rule mult_left_mono)
    then show ?thesis using 2 by (simp add: adjust_for_correlation_def Let_def)
  next
    case 3
    then have k2: "0 < k2" using assms(3) by simp
    have "?a * of_int k1 \<le> ?a * of_int k2" using assms(1,3) by (simp add: mult_left_mono)
    then have "max 0.1 (1 - ?a * of_int k2) \<le> max 0.1 (1 - ?a * of_int k1)" by simp
    then have "sz * max 0.1 (1 - ?a * of_int k2) \<le> sz * max 0.1 (1 - ?a * of_int k1)"
      using assms(2) by (rule mult_left_mono)
    then show ?thesis using 3 k2 by (simp add: adjust_for_correlation_def Let_def)
  qed
qed

lemma adjust_for_costs_nonneg: "0 \<le> sz \<Longrightarrow> 0 \<le> adjust_for_costs sz sp f"
  by (simp add: adjust_for_costs_def Let_def)

lemma adjust_for_costs_mono_size:
  "s1 \<le> s2 \<Longrightarrow> adjust_for_costs s1 sp f \<le> adjust_for_costs s2 sp f"
  by (simp add: adjust_for_costs_def Let_def mult_right_mono)

lemma adjust_for_costs_antimono:
  assumes "0 \<le> sz" "sp1 \<le> sp2" "f1 \<le> f2"
  shows "adjust_for_costs sz sp2 f2 \<le> adjust_for_costs sz sp1 f1"
proof -
  have "max 0.5 (1 - 2 * sp2 - f2) \<le> max 0.5 (1 - 2 * sp1 - f1)" using assms(2,3) by simp
  then have "sz * max 0.5 (1 - 2 * sp2 - f2) \<le> sz * max 0.5 (1 - 2 * sp1 - f1)"
    using assms(1) by (rule mult_left_mono)
  then show ?thesis by (simp add: adjust_for_costs_def Let_def)
qed

lemma capped_size_mono:
  assumes m: "0 \<le> minsz" and a: "0 \<le> a1" "a1 \<le> a2"
  shows "(if min (a1 * bal) (bal * cap) < minsz then 0 else min (a1 * bal) (bal * cap))
       \<le> (if min (a2 * bal) (bal * cap) < minsz then 0 else min (a2 * bal) (bal * cap) :: real)"
proof (cases "0 \<le> bal")
  case True
  have "a1 * bal \<le> a2 * bal" using a(2) True by (rule mult_right_mono)
  then have "min (a1 * bal) (bal * cap) \<le> min (a2 * bal) (bal * cap)" by simp
  then show ?thesis using m by auto
next
  case False
  then have b: "bal \<le> 0" by simp
  have a2: "0 \<le> a2" using a by simp
  have "a1 * bal \<le> 0" using a(1) b by (rule mult_nonneg_nonpos)
  then have x1: "min (a1 * bal) (bal * cap) \<le> 0" by simp
  have "a2 * bal \<le> 0" using a2 b by (rule mult_nonneg_nonpos)
  then have x2: "min (a2 * bal) (bal * cap) \<le> 0" by simp
  show ?thesis using x1 x2 m by auto
qed

lemma calculate_position_size_unfold:
  "calculate_position_size cfg s bal k =
     (if min (adjust_for_costs (adjust_for_correlation cfg
                 (apply_fractional_kelly cfg (calculate_kelly_from_edge (net_edge s) (current_price s))) k)
                 (estimated_spread s) (estimated_fee s) * bal)
             (bal * max_position_per_market cfg) < min_position_size cfg
      then 0
      else min (adjust_for_costs (adjust_for_correlation cfg
                 (apply_fractional_kelly cfg (calculate_kelly_from_edge (net_edge s) (current_price s))) k)
                 (estimated_spread s) (estimated_fee s) * bal)
             (bal * max_position_per_market cfg))"
  by (simp add: calculate_position_size_def Let_def)

lemma fractional_nonneg:
  "0 \<le> kelly_fraction cfg \<Longrightarrow> 0 \<le> apply_fractional_kelly cfg (calculate_kelly_from_edge e p)"
  by (simp add: apply_fractional_kelly_def calculate_kelly_from_edge_nonneg)

text \<open>
  C9. With a valid sizing configuration and all other inputs fixed, the dollar sz of
  \<open>calculate_position_size\<close> is non-decreasing in the signal's net edge and
  non-increasing in the number of correlated positions, in the estimated spread and in
  the estimated fee.
\<close>

theorem calculate_position_size_monotone:
  assumes "valid_SizingConfig cfg"
  shows "(e1 \<le> e2 \<longrightarrow>
            calculate_position_size cfg (s\<lparr>net_edge := e1\<rparr>) bal k
              \<le> calculate_position_size cfg (s\<lparr>net_edge := e2\<rparr>) bal k)
       \<and> (k1 \<le> k2 \<longrightarrow>
            calculate_position_size cfg s bal k2 \<le> calculate_position_size cfg s bal k1)
       \<and> (sp1 \<le> sp2 \<longrightarrow>
            calculate_position_size cfg (s\<lparr>estimated_spread := sp2\<rparr>) bal k
              \<le> calculate_position_size cfg (s\<lparr>estimated_spread := sp1\<rparr>) bal k)
       \<and> (f1 \<le> f2 \<longrightarrow>
            calculate_position_size cfg (s\<lparr>estimated_fee := f2\<rparr>) bal k
              \<le> calculate_position_size cfg (s\<lparr>estimated_fee := f1\<rparr>) bal k)"
proof -
  have kf: "0 \<le> kelly_fraction cfg" and ms: "0 \<le> min_position_size cfg"
    and ca: "0 \<le> correlation_adjustment_per_position cfg"
    using assms by (simp_all add: valid_SizingConfig_def)
  let ?p = "current_price s"
  let ?F = "\<lambda>e. apply_fractional_kelly cfg (calculate_kelly_from_edge e ?p)"
  have Fnn: "0 \<le> ?F e" for e using kf by (rule fractional_nonneg)
  have edge: "calculate_position_size cfg (s\<lparr>net_edge := e1\<rparr>) bal k
              \<le> calculate_position_size cfg (s\<lparr>net_edge := e2\<rparr>) bal k" if le: "e1 \<le> e2"
  proof -
    have "?F e1 \<le> ?F e2"
      using calculate_kelly_from_edge_mono[OF le, of ?p] kf
      by (simp add: apply_fractional_kelly_def mult_right_mono)
    then have "adjust_for_correlation cfg (?F e1) k \<le> adjust_for_correlation cfg (?F e2) k"
      by (rule adjust_for_correlation_mono_size)
    then have 1: "adjust_for_costs (adjust_for_correlation cfg (?F e1) k) (estimated_spread s) (estimated_fee s)
          \<le> adjust_for_costs (adjust_for_correlation cfg (?F e2) k) (estimated_spread s) (estimated_fee s)"
      by (rule adjust_for_costs_mono_size)
    have 0: "0 \<le> adjust_for_costs (adjust_for_correlation cfg (?F e1) k) (estimated_spread s) (estimated_fee s)"
      by (intro adjust_for_costs_nonneg adjust_for_correlation_nonneg Fnn)
    have u1: "calculate_position_size cfg (s\<lparr>net_edge := e1\<rparr>) bal k =
      (if min (adjust_for_costs (adjust_for_correlation cfg (?F e1) k) (estimated_spread s) (estimated_fee s) * bal)
              (bal * max_position_per_market cfg) < min_position_size cfg
       then 0
       else min (adjust_for_costs (adjust_for_correlation cfg (?F e1) k) (estimated_spread s) (estimated_fee s) * bal)
              (bal * max_position_per_market cfg))"
      by (subst calculate_position_size_unfold) simp
    have u2: "calculate_position_size cfg (s\<lparr>net_edge := e2\<rparr>) bal k =
      (if min (adjust_for_costs (adjust_for_correlation cfg (?F e2) k) (estimated_spread s) (estimated_fee s) * bal)
              (bal * max_position_per_market cfg) < min_position_size cfg
       then 0
       else min (adjust_for_costs (adjust_for_correlation cfg (?F e2) k) (estimated_spread s) (estimated_fee s) * bal)
              (bal * max_position_per_market cfg))"
      by (subst calculate_position_size_unfold) simp
    show ?thesis unfolding u1 u2 by (rule capped_size_mono[OF ms 0 1])
  qed
  have corr: "calculate_position_size cfg s bal k2 \<le> calculate_position_size cfg s bal k1"
    if le: "k1 \<le> k2"
  proof -
    let ?f = "?F (net_edge s)"
    have "adjust_for_correlation cfg ?f k2 \<le> adjust_for_correlation cfg ?f k1"
      using ca Fnn le by (rule adjust_for_correlation_antimono)
    then have 1: "adjust_for_costs (adjust_for_correlation cfg ?f k2) (estimated_spread s) (estimated_fee s)
          \<le> adjust_for_costs (adjust_for_correlation cfg ?f k1) (estimated_spread s) (estimated_fee s)"
      by (rule adjust_for_costs_mono_size)
    have 0: "0 \<le> adjust_for_costs (adjust_for_correlation cfg ?f k2) (estimated_spread s) (estimated_fee s)"
      by (intro adjust_for_costs_nonneg adjust_for_correlation_nonneg Fnn)
    show ?thesis unfolding calculate_position_size_unfold
      by (rule capped_size_mono[OF ms 0 1])
  qed
  have cost: "calculate_position_size cfg (s\<lparr>estimated_spread := sp2, estimated_fee := f2\<rparr>) bal k
              \<le> calculate_position_size cfg (s\<lparr>estimated_spread := sp1, estimated_fee := f1\<rparr>) bal k"
    if le: "sp1 \<le> sp2" "f1 \<le> f2" for sp1 sp2 f1 f2
  proof -
    let ?c = "adjust_for_correlation cfg (?F (net_edge s)) k"
    have cnn: "0 \<le> ?c" by (intro adjust_for_correlation_nonneg Fnn)
    have 1: "adjust_for_costs ?c sp2 f2 \<le> adjust_for_costs ?c sp1 f1"
      using cnn le by (rule adjust_for_costs_antimono)
    have 0: "0 \<le> adjust_for_costs ?c sp2 f2" using cnn by (rule adjust_for_costs_nonneg)
    have u1: "calculate_position_size cfg (s\<lparr>estimated_spread := sp1, estimated_fee := f1\<rparr>) bal k =
      (if min (adjust_for_costs ?c sp1 f1 * bal)
              (bal * max_position_per_market cfg) < min_position_size cfg
       then 0
       else min (adjust_for_costs ?c sp1 f1 * bal) (bal * max_position_per_market cfg))"
      by (subst calculate_position_size_unfold) simp
    have u2: "calculate_position_size cfg (s\<lparr>estimated_spread := sp2, estimated_fee := f2\<rparr>) bal k =
      (if min (adjust_for_costs ?c sp2 f2 * bal)
              (bal * max_position_per_market cfg) < min_position_size cfg
       then 0
       else min (adjust_for_costs ?c sp2 f2 * bal) (bal * max_position_per_market cfg))"
      by (subst calculate_position_size_unfold) simp
    show ?thesis unfolding u1 u2 by (rule capped_size_mono[OF ms 0 1])
  qed
  have spread: "calculate_position_size cfg (s\<lparr>estimated_spread := sp2\<rparr>) bal k
              \<le> calculate_position_size cfg (s\<lparr>estimated_spread := sp1\<rparr>) bal k" if le: "sp1 \<le> sp2"
    using cost[OF le order_refl, of "estimated_fee s"] by simp
  have fee: "calculate_position_size cfg (s\<lparr>estimated_fee := f2\<rparr>) bal k
              \<le> calculate_position_size cfg (s\<lparr>estimated_fee := f1\<rparr>) bal k" if le: "f1 \<le> f2"
    using cost[OF order_refl le, of "estimated_spread s"] by simp
  from edge corr spread fee show ?thesis by blast
qed

text \<open>
  The default configuration, a buy-yes signal at price 0.40 with spread 0.01 and fee 0.02,
  balance 10000: net edge 0.05 gives 200 dollars and 0.10 gives 400; two correlated
  positions, a wider spread or a higher fee give no more than 400.
\<close>

theorem calculate_position_size_monotone_witness:
  "valid_SizingConfig default_SizingConfig
   \<and> calculate_position_size default_SizingConfig
        (\<lparr> sig_ticker = ''T'', direction = BUY_YES, signal_type = CONSTRAINT_VIOLATION,
            current_price = 0.40, bound_price = 0.55, raw_edge = 0.15, estimated_fee = 0.02,
            estimated_spread = 0.01, net_edge = 0.10, sig_confidence = 1,
            sig_source_constraint_id = ''c'' \<rparr>\<lparr>net_edge := 0.05\<rparr>) 10000 0
      \<le> calculate_position_size default_SizingConfig
        (\<lparr> sig_ticker = ''T'', direction = BUY_YES, signal_type = CONSTRAINT_VIOLATION,
            current_price = 0.40, bound_price = 0.55, raw_edge = 0.15, estimated_fee = 0.02,
            estimated_spread = 0.01, net_edge = 0.10, sig_confidence = 1,
            sig_source_constraint_id = ''c'' \<rparr>\<lparr>net_edge := 0.10\<rparr>) 10000 0
   \<and> calculate_position_size default_SizingConfig
        \<lparr> sig_ticker = ''T'', direction = BUY_YES, signal_type = CONSTRAINT_VIOLATION,
            current_price = 0.40, bound_price = 0.55, raw_edge = 0.15, estimated_fee = 0.02,
            estimated_spread = 0.01, net_edge = 0.10, sig_confidence = 1,
            sig_source_constraint_id = ''c'' \<rparr> 10000 2
      \<le> calculate_position_size default_SizingConfig
        \<lparr> sig_ticker = ''T'', direction = BUY_YES, signal_type = CONSTRAINT_VIOLATION,
            current_price = 0.40, bound_price = 0.55, raw_edge = 0.15, estimated_fee = 0.02,
            estimated_spread = 0.01, net_edge = 0.10, sig_confidence = 1,
            sig_source_constraint_id = ''c'' \<rparr> 10000 0
   \<and> calculate_position_size default_SizingConfig
        \<lparr> sig_ticker = ''T'', direction = BUY_YES, signal_type = CONSTRAINT_VIOLATION,
            current_price = 0.40, bound_price = 0.55, raw_edge = 0.15, estimated_fee = 0.02,
            estimated_spread = 0.01, net_edge = 0.10, sig_confidence = 1,
            sig_source_constraint_id = ''c'' \<rparr> 10000 0 = 400
   \<and> calculate_position_size default_SizingConfig
        \<lparr> sig_ticker = ''T'', direction = BUY_YES, signal_type = CONSTRAINT_VIOLATION,
            current_price = 0.40, bound_price = 0.55, raw_edge = 0.15, estimated_fee = 0.02,
            estimated_spread = 0.01, net_edge = 0.05, sig_confidence = 1,
            sig_source_constraint_id = ''c'' \<rparr> 10000 0 = 200
   \<and> calculate_position_size default_SizingConfig
        \<lparr> sig_ticker = ''T'', direction = BUY_YES, signal_type = CONSTRAINT_VIOLATION,
            current_price = 0.40, bound_price = 0.55, raw_edge = 0.15, estimated_fee = 0.02,
            estimated_spread = 0.01, net_edge = 0.10, sig_confidence = 1,
            sig_source_constraint_id = ''c'' \<rparr> 10000 2 = 240"
proof -
  let ?S = "\<lparr> sig_ticker = ''T'', direction = BUY_YES, signal_type = CONSTRAINT_VIOLATION,
            current_price = 0.40, bound_price = 0.55, raw_edge = 0.15, estimated_fee = 0.02,
            estimated_spread = 0.01, net_edge = 0.10, sig_confidence = 1,
            sig_source_constraint_id = ''c'' \<rparr>"
  have v: "valid_SizingConfig default_SizingConfig"
    by (simp add: valid_SizingConfig_def default_SizingConfig_def)
  note m = calculate_position_size_monotone[OF v, of "0.05" "0.10" ?S 10000 0 0 2]
  have a: "calculate_position_size default_SizingConfig (?S\<lparr>net_edge := 0.05\<rparr>) 10000 0
      \<le> calculate_position_size default_SizingConfig (?S\<lparr>net_edge := 0.10\<rparr>) 10000 0"
    using m by simp
  have b: "calculate_position_size default_SizingConfig ?S 10000 2
      \<le> calculate_position_size default_SizingConfig ?S 10000 0"
    using m by simp
  have c: "calculate_position_size default_SizingConfig ?S 10000 0 = 400"
    by (simp add: calculate_position_size_def default_SizingConfig_def
          calculate_kelly_from_edge_def calculate_kelly_def apply_fractional_kelly_def
          adjust_for_correlation_def adjust_for_costs_def Let_def)
  have d: "calculate_position_size default_SizingConfig (?S\<lparr>net_edge := 0.05\<rparr>) 10000 0 = 200"
    by (simp add: calculate_position_size_def default_SizingConfig_def
          calculate_kelly_from_edge_def calculate_kelly_def apply_fractional_kelly_def
          adjust_for_correlation_def adjust_for_costs_def Let_def)
  have e: "calculate_position_size default_SizingConfig ?S 10000 2 = 240"
    by (simp add: calculate_position_size_def default_SizingConfig_def
          calculate_kelly_from_edge_def calculate_kelly_def apply_fractional_kelly_def
          adjust_for_correlation_def adjust_for_costs_def Let_def)
  show ?thesis using v a b c d e by simp
qed

section \<open>Profit taker: the minimum hold time\<close>

text \<open>
  C7. For a tracked position whose hold time is below \<open>min_hold_seconds\<close>,
  \<open>_evaluate_position\<close> returns no action of any kind, whatever the current price and
  profit, and leaves the tracker untouched.
\<close>

theorem evaluate_position_min_hold:
  assumes "tracked (pos_ticker position) = Some tracker"
    and "now - entry_time tracker < of_int (min_hold_seconds cfg)"
  shows "evaluate_position cfg tracked now position cp = Inr (None, tracked)"
  using assms by (simp add: evaluate_position_def Let_def)

text \<open>
  A yes position entered at 0.50 at time 0 and marked at 0.10 (a loss of 80 percent):
  at time 30 nothing is emitted; at time 90 the same call emits the stop loss.
\<close>

theorem evaluate_position_min_hold_witness:
  "evaluate_position default_ProfitTakerConfig
     [''T'' \<mapsto> \<lparr> trk_ticker = ''T'', trk_side = YES, entry_price = 0.50, entry_time = 0,
                  trk_quantity = 10, peak_price = 0.50, peak_profit_pct = 0,
                  tiers_closed = [], trailing_stop_active = False, trailing_stop_price = 0 \<rparr>]
     30
     \<lparr> pos_ticker = ''T'', pos_side = YES, pos_quantity = 10, average_price = 0.50,
       realized_pnl = 0, unrealized_pnl = 0 \<rparr>
     0.10
   = Inr (None,
     [''T'' \<mapsto> \<lparr> trk_ticker = ''T'', trk_side = YES, entry_price = 0.50, entry_time = 0,
                  trk_quantity = 10, peak_price = 0.50, peak_profit_pct = 0,
                  tiers_closed = [], trailing_stop_active = False, trailing_stop_price = 0 \<rparr>])
   \<and> map_option action (fst (projr (evaluate_position default_ProfitTakerConfig
     [''T'' \<mapsto> \<lparr> trk_ticker = ''T'', trk_side = YES, entry_price = 0.50, entry_time = 0,
                  trk_quantity = 10, peak_price = 0.50, peak_profit_pct = 0,
                  tiers_closed = [], trailing_stop_active = False, trailing_stop_price = 0 \<rparr>]
     90
     \<lparr> pos_ticker = ''T'', pos_side = YES, pos_quantity = 10, average_price = 0.50,
       realized_pnl = 0, unrealized_pnl = 0 \<rparr>
     0.10))) = Some ''stop_loss''"
proof -
  let ?TR = "\<lparr> trk_ticker = ''T'', trk_side = YES, entry_price = 0.50, entry_time = 0,
                  trk_quantity = 10, peak_price = 0.50, peak_profit_pct = 0,
                  tiers_closed = [], trailing_stop_active = False, trailing_stop_price = 0 \<rparr>"
  let ?P = "\<lparr> pos_ticker = ''T'', pos_side = YES, pos_quantity = 10, average_price = 0.50,
       realized_pnl = 0, unrealized_pnl = 0 \<rparr>"
  have h1: "[''T'' \<mapsto> ?TR] (pos_ticker ?P) = Some ?TR" by simp
  have h2: "30 - entry_time ?TR < of_int (min_hold_seconds default_ProfitTakerConfig)"
    by (simp add: default_ProfitTakerConfig_def)
  have a: "evaluate_position default_ProfitTakerConfig [''T'' \<mapsto> ?TR] 30 ?P 0.10
             = Inr (None, [''T'' \<mapsto> ?TR])"
    using h1 h2 by (rule evaluate_position_min_hold)
  have b: "map_option action (fst (projr (evaluate_position default_ProfitTakerConfig
             [''T'' \<mapsto> ?TR] 90 ?P 0.10))) = Some ''stop_loss''"
    by (simp add: evaluate_position_def default_ProfitTakerConfig_def update_peak_def
          calculate_profit_pct_def Let_def)
  from a b show ?thesis by (rule conjI)
qed

section \<open>Constraint engine: re-registering an id\<close>

lemma index_add_keeps: "c \<in> set (index_get ix t) \<Longrightarrow> c \<in> set (index_get (index_add cid u ix) t)"
  by (auto simp: index_add_def index_get_def split: option.splits)

lemma index_add_adds: "cid \<in> set (index_get (index_add cid t ix) t)"
  by (simp add: index_add_def index_get_def)

lemma fold_index_add_keeps:
  "c \<in> set (index_get ix t) \<Longrightarrow> c \<in> set (index_get (fold (index_add cid) ts ix) t)"
proof (induction ts arbitrary: ix)
  case Nil
  then show ?case by simp
next
  case (Cons u ts)
  have "c \<in> set (index_get (index_add cid u ix) t)" using Cons.prems by (rule index_add_keeps)
  then show ?case using Cons.IH by simp
qed

lemma fold_index_add_adds:
  "t \<in> set ts \<Longrightarrow> cid \<in> set (index_get (fold (index_add cid) ts ix) t)"
proof (induction ts arbitrary: ix)
  case Nil
  then show ?case by simp
next
  case (Cons u ts)
  show ?case
  proof (cases "t = u")
    case True
    have "cid \<in> set (index_get (index_add cid u ix) t)" unfolding True by (rule index_add_adds)
    then have "cid \<in> set (index_get (fold (index_add cid) ts (index_add cid u ix)) t)"
      by (rule fold_index_add_keeps)
    then show ?thesis by simp
  next
    case False
    then have "t \<in> set ts" using Cons.prems by simp
    then show ?thesis using Cons.IH by simp
  qed
qed

lemma register_constraint_fields:
  "fst (register_constraint eng a ty lhs rhs d (Some cid))
     = \<lparr> id' = cid, constraint_type = ty, lhs_tickers = lhs, rhs_tickers = rhs, description = d \<rparr>"
  "constraints (snd (register_constraint eng a ty lhs rhs d (Some cid)))
     = AList.update cid \<lparr> id' = cid, constraint_type = ty, lhs_tickers = lhs, rhs_tickers = rhs,
                          description = d \<rparr> (constraints eng)"
  "ticker_index (snd (register_constraint eng a ty lhs rhs d (Some cid)))
     = fold (index_add cid) (remdups (lhs @ rhs)) (ticker_index eng)"
  by (simp_all add: register_constraint_def Let_def all_tickers_def)

text \<open>
  C10. Registering under an id that is already registered, with tickers that no longer
  include a ticker \<open>t\<close> of the replaced constraint, leaves the id in the index entry of
  \<open>t\<close>: \<open>get_constraints_for_ticker t\<close> then returns the newly registered constraint,
  although \<open>t\<close> is not among its tickers.
\<close>

theorem reregistration_keeps_stale_index:
  assumes "t \<in> set (lhs1 @ rhs1)" and "t \<notin> set (lhs2 @ rhs2)"
  shows "fst (register_constraint
                (snd (register_constraint eng a1 ty1 lhs1 rhs1 d1 (Some cid)))
                a2 ty2 lhs2 rhs2 d2 (Some cid))
           \<in> set (get_constraints_for_ticker
                    (snd (register_constraint
                            (snd (register_constraint eng a1 ty1 lhs1 rhs1 d1 (Some cid)))
                            a2 ty2 lhs2 rhs2 d2 (Some cid)))
                    t)
       \<and> t \<notin> set (all_tickers
                     (fst (register_constraint
                             (snd (register_constraint eng a1 ty1 lhs1 rhs1 d1 (Some cid)))
                             a2 ty2 lhs2 rhs2 d2 (Some cid))))"
proof -
  let ?e1 = "snd (register_constraint eng a1 ty1 lhs1 rhs1 d1 (Some cid))"
  let ?r2 = "register_constraint ?e1 a2 ty2 lhs2 rhs2 d2 (Some cid)"
  let ?c2 = "\<lparr> id' = cid, constraint_type = ty2, lhs_tickers = lhs2, rhs_tickers = rhs2,
                description = d2 \<rparr>"
  have c2: "fst ?r2 = ?c2" by (rule register_constraint_fields(1))
  have t1: "t \<in> set (remdups (lhs1 @ rhs1))" using assms(1) by simp
  have i1: "cid \<in> set (index_get (ticker_index ?e1) t)"
    unfolding register_constraint_fields(3) using t1 by (rule fold_index_add_adds)
  have i2: "cid \<in> set (index_get (ticker_index (snd ?r2)) t)"
    unfolding register_constraint_fields(3)[of ?e1] using i1 by (rule fold_index_add_keeps)
  have m: "map_of (constraints (snd ?r2)) cid = Some ?c2"
    unfolding register_constraint_fields(2)[of ?e1] by (simp add: update_conv')
  have "?c2 \<in> (the \<circ> map_of (constraints (snd ?r2)))
                 ` {c \<in> set (index_get (ticker_index (snd ?r2)) t).
                      map_of (constraints (snd ?r2)) c \<noteq> None}"
    using i2 m by (intro image_eqI[of _ _ cid]) simp_all
  then have "?c2 \<in> set (get_constraints_for_ticker (snd ?r2) t)"
    unfolding get_constraints_for_ticker_def List.map_filter_def by simp
  moreover have "t \<notin> set (all_tickers ?c2)" using assms(2) by (simp add: all_tickers_def)
  ultimately show ?thesis unfolding c2 by (rule conjI)
qed

text \<open>
  Registering c1 as A within B and then c1 again as C within D: the constraints of A are
  the single new constraint, whose tickers are C and D.
\<close>

theorem reregistration_witness:
  "get_constraints_for_ticker
     (snd (register_constraint
             (snd (register_constraint ConstraintEngine_init ''auto1'' SUBSET [''A''] [''B'']
                     ''A in B'' (Some ''c1'')))
             ''auto2'' SUBSET [''C''] [''D''] ''C in D'' (Some ''c1'')))
     ''A''
   = [\<lparr> id' = ''c1'', constraint_type = SUBSET, lhs_tickers = [''C''], rhs_tickers = [''D''],
        description = ''C in D'' \<rparr>]
   \<and> fst (register_constraint
             (snd (register_constraint ConstraintEngine_init ''auto1'' SUBSET [''A''] [''B'']
                     ''A in B'' (Some ''c1'')))
             ''auto2'' SUBSET [''C''] [''D''] ''C in D'' (Some ''c1''))
      \<in> set (get_constraints_for_ticker
     (snd (register_constraint
             (snd (register_constraint ConstraintEngine_init ''auto1'' SUBSET [''A''] [''B'']
                     ''A in B'' (Some ''c1'')))
             ''auto2'' SUBSET [''C''] [''D''] ''C in D'' (Some ''c1'')))
     ''A'')"
proof -
  have h1: "''A'' \<in> set ([''A''] @ [''B''])" by simp
  have h2: "''A'' \<notin> set ([''C''] @ [''D''])" by simp
  note t = reregistration_keeps_stale_index[OF h1 h2, of ConstraintEngine_init
             "''auto1''" SUBSET "''A in B''" "''c1''" "''auto2''" SUBSET "''C in D''"]
  have ev: "get_constraints_for_ticker
     (snd (register_constraint
             (snd (register_constraint ConstraintEngine_init ''auto1'' SUBSET [''A''] [''B'']
                     ''A in B'' (Some ''c1'')))
             ''auto2'' SUBSET [''C''] [''D''] ''C in D'' (Some ''c1'')))
     ''A''
   = [\<lparr> id' = ''c1'', constraint_type = SUBSET, lhs_tickers = [''C''], rhs_tickers = [''D''],
        description = ''C in D'' \<rparr>]"
    by (simp add: get_constraints_for_ticker_def register_constraint_def ConstraintEngine_init_def
          all_tickers_def index_add_def index_get_def List.map_filter_def Let_def)
  from ev t show ?thesis by (intro conjI) (rule ev, rule conjunct1[OF t])
qed

section \<open>Float arithmetic: the rounding error\<close>

lemma round_half_even_error: "\<bar>of_int (round_half_even y) - y\<bar> \<le> 1/2"
proof -
  define d where "d = y - of_int \<lfloor>y\<rfloor>"
  have d: "0 \<le> d" "d < 1" unfolding d_def by linarith+
  have y: "y = of_int \<lfloor>y\<rfloor> + d" unfolding d_def by simp
  have r: "round_half_even y =
     (if d < 1/2 then \<lfloor>y\<rfloor> else if d > 1/2 then \<lfloor>y\<rfloor> + 1
      else if even \<lfloor>y\<rfloor> then \<lfloor>y\<rfloor> else \<lfloor>y\<rfloor> + 1)"
    unfolding round_half_even_def Let_def d_def ..
  have "\<bar>of_int (round_half_even y) - (of_int \<lfloor>y\<rfloor> + d)\<bar> \<le> 1/2"
    unfolding r using d by (simp add: abs_if)
  then show ?thesis using y by simp
qed

lemma ulp_le:
  assumes "(x::real) \<noteq> 0"
  shows "2 powr (of_int \<lfloor>log 2 \<bar>x\<bar>\<rfloor> - 52) \<le> \<bar>x\<bar> / 2 ^ 52"
proof -
  have p: "0 < \<bar>x\<bar>" using assms by simp
  have "(2::real) powr (of_int \<lfloor>log 2 \<bar>x\<bar>\<rfloor>) \<le> 2 powr (log 2 \<bar>x\<bar>)"
    by (rule powr_mono) simp_all
  also have "\<dots> = \<bar>x\<bar>" using p by simp
  finally have a: "2 powr (of_int \<lfloor>log 2 \<bar>x\<bar>\<rfloor>) \<le> \<bar>x\<bar>" .
  have "(2::real) powr (of_int \<lfloor>log 2 \<bar>x\<bar>\<rfloor> - 52) = 2 powr (of_int \<lfloor>log 2 \<bar>x\<bar>\<rfloor>) / 2 powr 52"
    by (rule powr_diff)
  also have "(2::real) powr 52 = 2 ^ 52" by simp
  finally show ?thesis using a by (simp add: divide_right_mono)
qed

lemma fl_error: "\<bar>fl x - x\<bar> \<le> \<bar>x\<bar> / 2 ^ 53"
proof (cases "x = 0")
  case True
  then show ?thesis by (simp add: fl_def)
next
  case False
  define ulp :: real where "ulp = 2 powr (of_int \<lfloor>log 2 \<bar>x\<bar>\<rfloor> - 52)"
  have up: "0 < ulp" unfolding ulp_def by simp
  have ul: "ulp \<le> \<bar>x\<bar> / 2 ^ 52" unfolding ulp_def using False by (rule ulp_le)
  have f: "fl x = of_int (round_half_even (x / ulp)) * ulp"
    using False unfolding fl_def ulp_def Let_def by simp
  have "fl x - x = (of_int (round_half_even (x / ulp)) - x / ulp) * ulp"
    unfolding f using up by (simp add: algebra_simps)
  then have "\<bar>fl x - x\<bar> = \<bar>of_int (round_half_even (x / ulp)) - x / ulp\<bar> * ulp"
    using up by (simp add: abs_mult)
  also have "\<dots> \<le> (1/2) * ulp"
    using round_half_even_error[of "x / ulp"] up by (intro mult_right_mono) simp_all
  also have "\<dots> \<le> (1/2) * (\<bar>x\<bar> / 2 ^ 52)" using ul by simp
  also have "\<dots> = \<bar>x\<bar> / 2 ^ 53" by simp
  finally show ?thesis .
qed

lemma fl_zero: "fl 0 = 0"
  by (simp add: fl_def)

lemma fl_nonneg_rel:
  assumes "0 \<le> x"
  shows "x * (1 - 1 / 2 ^ 53) \<le> fl x" and "fl x \<le> x * (1 + 1 / 2 ^ 53)"
proof -
  have e: "\<bar>fl x - x\<bar> \<le> x / 2 ^ 53" using fl_error[of x] assms by simp
  have e1: "fl x - x \<le> x / 2 ^ 53" and e2: "- (x / 2 ^ 53) \<le> fl x - x"
    using e unfolding abs_le_iff by linarith+
  show "x * (1 - 1 / 2 ^ 53) \<le> fl x" using e2 by (simp add: algebra_simps)
  show "fl x \<le> x * (1 + 1 / 2 ^ 53)" using e1 by (simp add: algebra_simps)
qed

lemma fl_nonpos_rel:
  assumes "x \<le> 0"
  shows "x * (1 + 1 / 2 ^ 53) \<le> fl x" and "fl x \<le> x * (1 - 1 / 2 ^ 53)"
proof -
  have e: "\<bar>fl x - x\<bar> \<le> - x / 2 ^ 53" using fl_error[of x] assms by simp
  have e1: "fl x - x \<le> - x / 2 ^ 53" and e2: "- (- x / 2 ^ 53) \<le> fl x - x"
    using e unfolding abs_le_iff by linarith+
  show "x * (1 + 1 / 2 ^ 53) \<le> fl x" using e2 by (simp add: algebra_simps)
  show "fl x \<le> x * (1 - 1 / 2 ^ 53)" using e1 by (simp add: algebra_simps)
qed

lemma fl_nonneg: "0 \<le> x \<Longrightarrow> 0 \<le> fl x"
proof -
  assume x: "0 \<le> x"
  have "0 \<le> x * (1 - 1 / 2 ^ 53)" using x by (intro mult_nonneg_nonneg) simp_all
  then show ?thesis using fl_nonneg_rel(1)[OF x] by linarith
qed

lemma fl_nonpos: "x \<le> 0 \<Longrightarrow> fl x \<le> 0"
proof -
  assume x: "x \<le> 0"
  have "x * (1 - 1 / 2 ^ 53) \<le> 0" using x by (intro mult_nonpos_nonneg) simp_all
  then show ?thesis using fl_nonpos_rel(2)[OF x] by linarith
qed

lemma fl_pos: "0 < x \<Longrightarrow> 0 < fl x"
proof -
  assume x: "0 < x"
  have "0 < x * (1 - 1 / 2 ^ 53)" using x by (intro mult_pos_pos) simp_all
  then show ?thesis using fl_nonneg_rel(1)[of x] x by linarith
qed

lemma fl_neg: "x < 0 \<Longrightarrow> fl x < 0"
proof -
  assume x: "x < 0"
  have "x * (1 - 1 / 2 ^ 53) < 0" using x by (intro mult_neg_pos) simp_all
  then show ?thesis using fl_nonpos_rel(2)[of x] x by linarith
qed

text \<open>Interval bounds with a relative slack of \<open>10^-15\<close>, for evaluating concrete runs.\<close>

lemma fl_bounds:
  assumes "lo \<le> x" "x \<le> hi" "0 \<le> lo"
    and "lo' \<le> lo * (1 - 1 / 10 ^ 15)" "hi * (1 + 1 / 10 ^ 15) \<le> hi'"
  shows "lo' \<le> fl x \<and> fl x \<le> hi'"
proof -
  have x: "0 \<le> x" using assms by simp
  have "x * (1 / 2 ^ 53) \<le> x * (1 / 10 ^ 15)" using x by (intro mult_left_mono) simp_all
  then have a: "x * (1 - 1 / 10 ^ 15) \<le> x * (1 - 1 / 2 ^ 53)"
    and b: "x * (1 + 1 / 2 ^ 53) \<le> x * (1 + 1 / 10 ^ 15)"
    by (simp_all add: algebra_simps)
  have 1: "lo * (1 - 1 / 10 ^ 15) \<le> x * (1 - 1 / 10 ^ 15)"
    using assms(1) by (intro mult_right_mono) simp_all
  have 2: "x * (1 + 1 / 10 ^ 15) \<le> hi * (1 + 1 / 10 ^ 15)"
    using assms(2) by (intro mult_right_mono) simp_all
  show ?thesis using fl_nonneg_rel[OF x] a b 1 2 assms(4,5) by linarith
qed


lemma floor_near:
  assumes "\<bar>x - y\<bar> < (1::real)"
  shows "\<bar>\<lfloor>x\<rfloor> - \<lfloor>y\<rfloor>\<bar> \<le> 1"
proof -
  have a: "x \<le> y + 1" "y \<le> x + 1" using assms by linarith+
  have "\<lfloor>x\<rfloor> \<le> \<lfloor>y + 1\<rfloor>" using a(1) by (rule floor_mono)
  moreover have "\<lfloor>y\<rfloor> \<le> \<lfloor>x + 1\<rfloor>" using a(2) by (rule floor_mono)
  moreover have "\<lfloor>y + 1\<rfloor> = \<lfloor>y\<rfloor> + 1" "\<lfloor>x + 1\<rfloor> = \<lfloor>x\<rfloor> + 1" by simp_all
  ultimately show ?thesis by linarith
qed

section \<open>Limit price\<close>

lemma calculate_limit_price_range:
  "1 \<le> calculate_limit_price s a \<and> calculate_limit_price s a \<le> 99"
  by (simp add: calculate_limit_price_def Let_def)

lemma py_int_nonneg: "0 \<le> x \<Longrightarrow> py_int x = \<lfloor>x\<rfloor>"
  by (simp add: py_int_def)

lemma py_int_neg_clamped:
  assumes "x < 0"
  shows "max 1 (min 99 (py_int x)) = 1"
proof -
  have "\<lceil>x\<rceil> \<le> 0" using assms by (simp add: ceiling_le_zero)
  then show ?thesis using assms by (simp add: py_int_def)
qed

lemma fl_times_100_near:
  assumes "0 \<le> a" "a \<le> 2"
  shows "\<bar>fl (fl a * 100) - a * 100\<bar> < 1"
proof -
  let ?u = "1 / 2 ^ 53 :: real"
  have fa: "a * (1 - ?u) \<le> fl a" "fl a \<le> a * (1 + ?u)" using assms(1) by (rule fl_nonneg_rel)+
  have fa0: "0 \<le> fl a" using assms(1) by (rule fl_nonneg)
  have p0: "0 \<le> fl a * 100" using fa0 by simp
  have fp: "fl a * 100 * (1 - ?u) \<le> fl (fl a * 100)" "fl (fl a * 100) \<le> fl a * 100 * (1 + ?u)"
    using p0 by (rule fl_nonneg_rel)+
  have "fl a * 100 * (1 + ?u) \<le> a * (1 + ?u) * 100 * (1 + ?u)"
    using fa(2) by (simp add: mult_right_mono)
  then have up: "fl (fl a * 100) \<le> a * (1 + ?u) * 100 * (1 + ?u)" using fp(2) by linarith
  have "a * (1 - ?u) * 100 * (1 - ?u) \<le> fl a * 100 * (1 - ?u)"
    using fa(1) by (simp add: mult_right_mono)
  then have lo: "a * (1 - ?u) * 100 * (1 - ?u) \<le> fl (fl a * 100)" using fp(1) by linarith
  have "fl (fl a * 100) - a * 100 < 1" using up assms by (simp add: algebra_simps)
  moreover have "a * 100 - fl (fl a * 100) < 1" using lo assms by (simp add: algebra_simps)
  ultimately show ?thesis by linarith
qed

text \<open>
  C8 (as amended). For every signal the limit price lies in the integer-cent range
  [1, 99]. \<open>execute_signal\<close> asks for the aggressive price exactly when the net edge
  exceeds the float product \<open>2 * spread\<close>. For a valid signal the aggressive price is,
  for buy-yes, the floor of the float product \<open>(current_price + spread) * 100\<close> clamped
  to [1, 99]; for buy-no it is the truncation toward zero of the float product
  \<open>(current_price - spread) * 100\<close> clamped to [1, 99], that is the clamped floor when
  \<open>spread \<le> current_price\<close> and 1 otherwise. With a spread of at most 1 the floor of the
  float product is the floor of the exact product or one cent beside it.
\<close>

theorem calculate_limit_price_spec:
  assumes "valid_DirectionalSignal s"
  shows "1 \<le> calculate_limit_price s a \<and> calculate_limit_price s a \<le> 99
       \<and> execute_signal_price_cents s
            = calculate_limit_price s (net_edge s > fl (2 * estimated_spread s))
       \<and> (direction s = BUY_YES \<longrightarrow>
            calculate_limit_price s True
              = max 1 (min 99 \<lfloor>fl (fl (current_price s + estimated_spread s) * 100)\<rfloor>))
       \<and> (direction s = BUY_NO \<longrightarrow>
            calculate_limit_price s True
              = (if estimated_spread s \<le> current_price s
                 then max 1 (min 99 \<lfloor>fl (fl (current_price s - estimated_spread s) * 100)\<rfloor>)
                 else 1))
       \<and> (estimated_spread s \<le> 1 \<longrightarrow>
            \<bar>\<lfloor>fl (fl (current_price s + estimated_spread s) * 100)\<rfloor>
               - \<lfloor>(current_price s + estimated_spread s) * 100\<rfloor>\<bar> \<le> 1)
       \<and> (estimated_spread s \<le> current_price s \<longrightarrow>
            \<bar>\<lfloor>fl (fl (current_price s - estimated_spread s) * 100)\<rfloor>
               - \<lfloor>(current_price s - estimated_spread s) * 100\<rfloor>\<bar> \<le> 1)"
proof -
  have cp: "0 \<le> current_price s" "current_price s \<le> 1" and sp: "0 \<le> estimated_spread s"
    using assms by (simp_all add: valid_DirectionalSignal_def)
  have r: "1 \<le> calculate_limit_price s a \<and> calculate_limit_price s a \<le> 99"
    by (rule calculate_limit_price_range)
  have e: "execute_signal_price_cents s
            = calculate_limit_price s (net_edge s > fl (2 * estimated_spread s))"
    by (simp add: execute_signal_price_cents_def execute_signal_aggressive_def)
  have y: "calculate_limit_price s True
              = max 1 (min 99 \<lfloor>fl (fl (current_price s + estimated_spread s) * 100)\<rfloor>)"
    if d: "direction s = BUY_YES"
  proof -
    have "0 \<le> fl (current_price s + estimated_spread s)" using cp sp by (intro fl_nonneg) simp
    then have "0 \<le> fl (fl (current_price s + estimated_spread s) * 100)"
      by (intro fl_nonneg) simp
    then have "py_int (fl (fl (current_price s + estimated_spread s) * 100))
                 = \<lfloor>fl (fl (current_price s + estimated_spread s) * 100)\<rfloor>"
      by (rule py_int_nonneg)
    then show ?thesis using d by (simp add: calculate_limit_price_def Let_def)
  qed
  have n: "calculate_limit_price s True
              = (if estimated_spread s \<le> current_price s
                 then max 1 (min 99 \<lfloor>fl (fl (current_price s - estimated_spread s) * 100)\<rfloor>)
                 else 1)"
    if d: "direction s = BUY_NO"
  proof (cases "estimated_spread s \<le> current_price s")
    case True
    then have "0 \<le> fl (current_price s - estimated_spread s)" by (intro fl_nonneg) simp
    then have "0 \<le> fl (fl (current_price s - estimated_spread s) * 100)"
      by (intro fl_nonneg) simp
    then have "py_int (fl (fl (current_price s - estimated_spread s) * 100))
                 = \<lfloor>fl (fl (current_price s - estimated_spread s) * 100)\<rfloor>"
      by (rule py_int_nonneg)
    then show ?thesis using d True by (simp add: calculate_limit_price_def Let_def)
  next
    case False
    then have "fl (current_price s - estimated_spread s) < 0" by (intro fl_neg) simp
    then have "fl (fl (current_price s - estimated_spread s) * 100) < 0" by (intro fl_neg) simp
    then have "max 1 (min 99 (py_int (fl (fl (current_price s - estimated_spread s) * 100)))) = 1"
      by (rule py_int_neg_clamped)
    then show ?thesis using d False by (simp add: calculate_limit_price_def Let_def)
  qed
  have ny: "\<bar>\<lfloor>fl (fl (current_price s + estimated_spread s) * 100)\<rfloor>
               - \<lfloor>(current_price s + estimated_spread s) * 100\<rfloor>\<bar> \<le> 1"
    if "estimated_spread s \<le> 1"
    by (rule floor_near, rule fl_times_100_near) (use cp sp that in simp_all)
  have nn: "\<bar>\<lfloor>fl (fl (current_price s - estimated_spread s) * 100)\<rfloor>
               - \<lfloor>(current_price s - estimated_spread s) * 100\<rfloor>\<bar> \<le> 1"
    if "estimated_spread s \<le> current_price s"
    by (rule floor_near, rule fl_times_100_near) (use cp sp that in simp_all)
  from r e y n ny nn show ?thesis by blast
qed

lemma floor_between: "of_int n \<le> x \<Longrightarrow> x < of_int n + 1 \<Longrightarrow> \<lfloor>x::real\<rfloor> = n"
  by (rule floor_unique)

text \<open>
  A buy-yes signal at 0.405 with spread 0.01 and net edge 0.05, which exceeds twice the
  spread: the price is floor(41.5) = 41 cents.
\<close>

theorem calculate_limit_price_witness:
  "valid_DirectionalSignal
     \<lparr> sig_ticker = ''T'', direction = BUY_YES, signal_type = CONSTRAINT_VIOLATION,
       current_price = fl 0.405, bound_price = 0.5, raw_edge = fl 0.095,
       estimated_fee = fl 0.02, estimated_spread = fl 0.01, net_edge = fl 0.05,
       sig_confidence = 1, sig_source_constraint_id = ''c'' \<rparr>
   \<and> execute_signal_price_cents
     \<lparr> sig_ticker = ''T'', direction = BUY_YES, signal_type = CONSTRAINT_VIOLATION,
       current_price = fl 0.405, bound_price = 0.5, raw_edge = fl 0.095,
       estimated_fee = fl 0.02, estimated_spread = fl 0.01, net_edge = fl 0.05,
       sig_confidence = 1, sig_source_constraint_id = ''c'' \<rparr> = 41"
proof -
  let ?S = "\<lparr> sig_ticker = ''T'', direction = BUY_YES, signal_type = CONSTRAINT_VIOLATION,
       current_price = fl 0.405, bound_price = 0.5, raw_edge = fl 0.095,
       estimated_fee = fl 0.02, estimated_spread = fl 0.01, net_edge = fl 0.05,
       sig_confidence = 1, sig_source_constraint_id = ''c'' \<rparr>"
  have c: "0.4049 \<le> fl 0.405 \<and> fl 0.405 \<le> 0.4051"
    by (rule fl_bounds[where lo = "0.405" and hi = "0.405"]) simp_all
  have sp: "0.0099 \<le> fl 0.01 \<and> fl 0.01 \<le> 0.0101"
    by (rule fl_bounds[where lo = "0.01" and hi = "0.01"]) simp_all
  have fe: "0 \<le> fl 0.02" by (rule fl_nonneg) simp
  have ne: "0.0499 \<le> fl 0.05 \<and> fl 0.05 \<le> 0.0501"
    by (rule fl_bounds[where lo = "0.05" and hi = "0.05"]) simp_all
  have v: "valid_DirectionalSignal ?S" using c sp fe by (simp add: valid_DirectionalSignal_def)
  have two: "0.0197 \<le> fl (2 * fl 0.01) \<and> fl (2 * fl 0.01) \<le> 0.0203"
    by (rule fl_bounds[where lo = "0.0198" and hi = "0.0202"]) (use sp in simp_all)
  have agg: "net_edge ?S > fl (2 * estimated_spread ?S)" using ne two by simp
  have s1: "0.4147 \<le> fl (fl 0.405 + fl 0.01) \<and> fl (fl 0.405 + fl 0.01) \<le> 0.4153"
    by (rule fl_bounds[where lo = "0.4148" and hi = "0.4152"]) (use c sp in simp_all)
  have s2: "41.4 \<le> fl (fl (fl 0.405 + fl 0.01) * 100) \<and> fl (fl (fl 0.405 + fl 0.01) * 100) \<le> 41.6"
    by (rule fl_bounds[where lo = "41.47" and hi = "41.53"]) (use s1 in simp_all)
  have fl41: "\<lfloor>fl (fl (fl 0.405 + fl 0.01) * 100)\<rfloor> = 41"
    by (rule floor_between) (use s2 in simp_all)
  note t = calculate_limit_price_spec[OF v, of True]
  have "calculate_limit_price ?S True = 41" using t fl41 by simp
  moreover have "execute_signal_price_cents ?S = calculate_limit_price ?S True"
    using t agg by simp
  ultimately have "execute_signal_price_cents ?S = 41" by simp
  with v show ?thesis by (rule conjI)
qed

text \<open>
  A buy-no signal at 0.50 with spread 0.015 and net edge 0.05 (aggressive): the code
  returns 48 cents, where the ceiling of (0.50 - spread) * 100 is 49.
\<close>

theorem calculate_limit_price_counterexample:
  "execute_signal_aggressive
     \<lparr> sig_ticker = ''T'', direction = BUY_NO, signal_type = CONSTRAINT_VIOLATION,
       current_price = 0.5, bound_price = fl 0.4, raw_edge = fl 0.1,
       estimated_fee = fl 0.02, estimated_spread = fl 0.015, net_edge = fl 0.05,
       sig_confidence = 1, sig_source_constraint_id = ''c'' \<rparr>
   \<and> execute_signal_price_cents
     \<lparr> sig_ticker = ''T'', direction = BUY_NO, signal_type = CONSTRAINT_VIOLATION,
       current_price = 0.5, bound_price = fl 0.4, raw_edge = fl 0.1,
       estimated_fee = fl 0.02, estimated_spread = fl 0.015, net_edge = fl 0.05,
       sig_confidence = 1, sig_source_constraint_id = ''c'' \<rparr> = 48
   \<and> \<lceil>(0.5 - fl 0.015) * 100\<rceil> = 49"
proof -
  let ?S = "\<lparr> sig_ticker = ''T'', direction = BUY_NO, signal_type = CONSTRAINT_VIOLATION,
       current_price = 0.5, bound_price = fl 0.4, raw_edge = fl 0.1,
       estimated_fee = fl 0.02, estimated_spread = fl 0.015, net_edge = fl 0.05,
       sig_confidence = 1, sig_source_constraint_id = ''c'' \<rparr>"
  have sp: "0.01499 \<le> fl 0.015 \<and> fl 0.015 \<le> 0.01501"
    by (rule fl_bounds[where lo = "0.015" and hi = "0.015"]) simp_all
  have ne: "0.0499 \<le> fl 0.05 \<and> fl 0.05 \<le> 0.0501"
    by (rule fl_bounds[where lo = "0.05" and hi = "0.05"]) simp_all
  have two: "0.0299 \<le> fl (2 * fl 0.015) \<and> fl (2 * fl 0.015) \<le> 0.0301"
    by (rule fl_bounds[where lo = "0.02998" and hi = "0.03002"]) (use sp in simp_all)
  have agg: "execute_signal_aggressive ?S"
    using ne two by (simp add: execute_signal_aggressive_def)
  have s1: "0.4849 \<le> fl (0.5 - fl 0.015) \<and> fl (0.5 - fl 0.015) \<le> 0.4851"
    by (rule fl_bounds[where lo = "0.48499" and hi = "0.48501"]) (use sp in simp_all)
  have s2: "48.4 \<le> fl (fl (0.5 - fl 0.015) * 100) \<and> fl (fl (0.5 - fl 0.015) * 100) \<le> 48.6"
    by (rule fl_bounds[where lo = "48.49" and hi = "48.51"]) (use s1 in simp_all)
  have "py_int (fl (fl (0.5 - fl 0.015) * 100)) = \<lfloor>fl (fl (0.5 - fl 0.015) * 100)\<rfloor>"
    by (rule py_int_nonneg) (use s2 in simp)
  also have "\<dots> = 48" by (rule floor_between) (use s2 in simp_all)
  finally have p: "py_int (fl (fl (0.5 - fl 0.015) * 100)) = 48" .
  have price: "execute_signal_price_cents ?S = 48"
    using agg p by (simp add: execute_signal_price_cents_def calculate_limit_price_def Let_def)
  have "\<lceil>(0.5 - fl 0.015) * 100\<rceil> = 49"
    by (rule ceiling_unique) (use sp in simp_all)
  with agg price show ?thesis by blast
qed

section \<open>Rebalancing detector\<close>



















section \<open>Partition bounds\<close>






















end
